theory Spec2Isabelle
  imports Complex_Main "HOL-Library.Sublist"
begin

section \<open>ToDoApp: the resolver layer of src/index.js\<close>

text \<open>
  The program is one file: a GraphQL server whose resolvers read and write three MongoDB
  collections (\<open>Users\<close>, \<open>TaskList\<close>, \<open>ToDo\<close>). The embedding keeps the
  resolvers as functions of their arguments, the store and the requesting user, returning
  either an error (a JavaScript \<open>throw\<close>) or a value, together with the store afterwards.
  The libraries the file calls (the MongoDB driver, \<open>jsonwebtoken\<close>, \<open>bcryptjs\<close>) are
  modelled by what the calls made here observe of them.
\<close>

subsection \<open>Errors\<close>

datatype error =
    AuthenticationError   \<comment> \<open>\<open>'Authentication Error. Please sing in'\<close>\<close>
  | InvalidCredentials    \<comment> \<open>\<open>'Invalid credentials!'\<close>\<close>
  | UserAlreadyExists     \<comment> \<open>\<open>'User already exists in this TaskList!'\<close>\<close>
  | InvalidObjectId       \<comment> \<open>thrown by \<open>ObjectId(s)\<close> on a string that is no identifier\<close>
  | JsonWebTokenError     \<comment> \<open>thrown by \<open>jwt.verify\<close>: malformed token or invalid signature\<close>
  | TokenExpiredError     \<comment> \<open>thrown by \<open>jwt.verify\<close>: the token has expired\<close>
  | DuplicateKey          \<comment> \<open>thrown by \<open>insertOne\<close> when the \<open>_id\<close> is already stored\<close>

subsection \<open>ObjectId\<close>

text \<open>
  An identifier of the store is twelve bytes; \<open>toString\<close> prints them as 24 lower-case
  hexadecimal digits, and that string is what the model keeps. \<open>ObjectId(s)\<close> on a string
  accepts 24 hexadecimal digits of either case, or any 12 characters (taken as the bytes
  themselves), and throws on every other string. Strings are byte strings here.
\<close>

datatype oid = Oid (toString: string)

definition isHexDigit :: "char \<Rightarrow> bool" where
  "isHexDigit c = (c \<in> set ''0123456789abcdefABCDEF'')"

definition lowerHex :: "char \<Rightarrow> char" where
  "lowerHex c =
     (if c = CHR ''A'' then CHR ''a'' else if c = CHR ''B'' then CHR ''b''
      else if c = CHR ''C'' then CHR ''c'' else if c = CHR ''D'' then CHR ''d''
      else if c = CHR ''E'' then CHR ''e'' else if c = CHR ''F'' then CHR ''f'' else c)"

definition hexDigit :: "nat \<Rightarrow> char" where
  "hexDigit n = ''0123456789abcdef'' ! (n mod 16)"

definition hexByte :: "char \<Rightarrow> string" where
  "hexByte c = [hexDigit ((of_char c :: nat) div 16), hexDigit ((of_char c :: nat) mod 16)]"

definition ObjectId :: "string \<Rightarrow> error + oid" where
  "ObjectId s =
     (if length s = 24 \<and> list_all isHexDigit s then Inr (Oid (map lowerHex s))
      else if length s = 12 then Inr (Oid (concat (map hexByte s)))
      else Inl InvalidObjectId)"

text \<open>
  \<open>ObjectId(x)\<close> on a value that already is an identifier (a stored \<open>_id\<close> or
  \<open>taskListId\<close>) returns it as it is; the model writes the identifier itself there.
\<close>

subsection \<open>Documents\<close>

text \<open>
  \<open>_id\<close> cannot be an Isabelle name: it is \<open>u_id\<close>, \<open>tl_id\<close> and \<open>td_id\<close>. The other
  fields carry the prefix of their document, since the inputs of \<open>signUp\<close> and \<open>signIn\<close>
  have fields of the same names. \<open>td_content\<close> is \<open>None\<close> for JavaScript's \<open>null\<close>
  (\<open>updateToDo\<close> can store it); \<open>td_idField\<close> is the field \<open>id\<close> of a ToDo document,
  \<open>None\<close> while the document has no such field.
\<close>

datatype bcrypt_hash = Bcrypt (salt: string) (plain: string)

record User =
  u_id :: oid
  u_email :: string
  u_password :: bcrypt_hash
  u_name :: string
  u_avatar :: "string option"

record TaskList =
  tl_id :: oid
  tl_title :: string
  tl_createdAt :: string
  tl_userIds :: "oid list"

record ToDo =
  td_id :: oid
  td_content :: "string option"
  td_taskListId :: oid
  td_isCompleted :: bool
  td_idField :: "string option"

subsection \<open>The store\<close>

text \<open>
  A collection is the list of its documents in insertion order. \<open>accesses\<close> records every
  call made on a collection, in order: it is how "no read or write was performed" is stated.
\<close>

datatype access = Read string | Write string

record db =
  coll_Users :: "User list"
  coll_TaskList :: "TaskList list"
  coll_ToDo :: "ToDo list"
  accesses :: "access list"

definition empty_db :: db where
  "empty_db = \<lparr>coll_Users = [], coll_TaskList = [], coll_ToDo = [], accesses = []\<rparr>"

definition logged :: "access \<Rightarrow> db \<Rightarrow> db" where
  "logged a d = d\<lparr>accesses := accesses d @ [a]\<rparr>"

text \<open>The driver's operations on one collection.\<close>

definition findOne :: "('a \<Rightarrow> bool) \<Rightarrow> 'a list \<Rightarrow> 'a option" where
  "findOne q docs = List.find q docs"

definition find_toArray :: "('a \<Rightarrow> bool) \<Rightarrow> 'a list \<Rightarrow> 'a list" where
  "find_toArray q docs = filter q docs"

fun updateOne :: "('a \<Rightarrow> bool) \<Rightarrow> ('a \<Rightarrow> 'a) \<Rightarrow> 'a list \<Rightarrow> 'a list" where
  "updateOne q f [] = []"
| "updateOne q f (x # xs) = (if q x then f x # xs else x # updateOne q f xs)"

definition remove :: "('a \<Rightarrow> bool) \<Rightarrow> 'a list \<Rightarrow> 'a list" where
  "remove q docs = filter (\<lambda>x. \<not> q x) docs"

definition insertOne :: "('a \<Rightarrow> oid) \<Rightarrow> 'a \<Rightarrow> 'a list \<Rightarrow> error + 'a list" where
  "insertOne key doc docs =
     (if key doc \<in> set (map key docs) then Inl DuplicateKey else Inr (docs @ [doc]))"

subsection \<open>Tokens and password hashes\<close>

text \<open>
  \<open>jsonwebtoken\<close> and \<open>bcryptjs\<close> are used as ideal primitives. The string in the
  \<open>authorization\<close> header is either a well-formed token, given by its payload and the key
  that signed it, or some other string. The payload's \<open>id\<close> is the JSON form of the
  identifier passed to \<open>jwt.sign\<close>, that is its \<open>toString\<close>. Times are seconds.
\<close>

record tokenData =
  jwt_id :: "string option"
  jwt_iat :: nat
  jwt_exp :: "nat option"

datatype token = Jwt tokenData string | Raw string

definition jwt_sign :: "string option \<Rightarrow> string \<Rightarrow> nat \<Rightarrow> nat \<Rightarrow> token" where
  "jwt_sign payload_id secretKey expiresIn clock =
     Jwt \<lparr>jwt_id = payload_id, jwt_iat = clock, jwt_exp = Some (clock + expiresIn)\<rparr> secretKey"

definition jwt_verify :: "token \<Rightarrow> string \<Rightarrow> nat \<Rightarrow> error + tokenData" where
  "jwt_verify t secretKey clock =
     (case t of
        Raw s \<Rightarrow> Inl JsonWebTokenError
      | Jwt payload k \<Rightarrow>
          if k \<noteq> secretKey then Inl JsonWebTokenError
          else (case jwt_exp payload of
                  None \<Rightarrow> Inr payload
                | Some e \<Rightarrow> if e \<le> clock then Inl TokenExpiredError else Inr payload))"

text \<open>
  bcrypt hashes the first 72 bytes of a password and ignores the rest: \<open>plain\<close> of a
  hash is that prefix, and \<open>compareSync\<close> compares the prefix of the password it is
  given with it.
\<close>

definition hashSync :: "string \<Rightarrow> string \<Rightarrow> bcrypt_hash" where
  "hashSync pw s = Bcrypt s (take 72 pw)"

definition compareSync :: "string \<Rightarrow> bcrypt_hash \<Rightarrow> bool" where
  "compareSync pw h = (plain h = take 72 pw)"

text \<open>
  What a request takes from outside the store: the secret of the process environment, the
  clock (in seconds, and as the ISO-8601 string of \<open>new Date().toISOString()\<close>), the
  identifier the driver generates for an inserted document and the salt \<open>hashSync\<close> draws.
\<close>

record env =
  JWT_SECRET :: string
  clock :: nat
  isoDate :: string
  freshId :: oid
  freshSalt :: string

definition thirty_days :: nat where
  "thirty_days = 30 * 24 * 60 * 60"

definition getToken :: "env \<Rightarrow> User \<Rightarrow> token" where
  "getToken e user = jwt_sign (Some (toString (u_id user))) (JWT_SECRET e) thirty_days (clock e)"

text \<open>\<open>!token\<close> holds of an absent header and of the empty string.\<close>

fun getUserFromToken :: "env \<Rightarrow> token option \<Rightarrow> db \<Rightarrow> (error + User option) \<times> db" where
  "getUserFromToken e None d = (Inr None, d)"
| "getUserFromToken e (Some t) d =
     (if t = Raw [] then (Inr None, d)
      else case jwt_verify t (JWT_SECRET e) (clock e) of
             Inl err \<Rightarrow> (Inl err, d)
           | Inr tokenData \<Rightarrow>
               (case jwt_id tokenData of
                  None \<Rightarrow> (Inr None, d)
                | Some i \<Rightarrow>
                    if i = [] then (Inr None, d)
                    else (case ObjectId i of
                            Inl err \<Rightarrow> (Inl err, d)
                          | Inr oi \<Rightarrow>
                              (Inr (findOne (\<lambda>u. u_id u = oi) (coll_Users d)),
                               logged (Read ''Users'') d))))"

subsection \<open>Queries\<close>

definition myTaskLists :: "db \<Rightarrow> User option \<Rightarrow> (error + TaskList list) \<times> db" where
  "myTaskLists d user =
     (case user of
        None \<Rightarrow> (Inl AuthenticationError, d)
      | Some u \<Rightarrow>
          (Inr (find_toArray (\<lambda>t. u_id u \<in> set (tl_userIds t)) (coll_TaskList d)),
           logged (Read ''TaskList'') d))"

definition getTaskList :: "string \<Rightarrow> db \<Rightarrow> User option \<Rightarrow> (error + TaskList option) \<times> db" where
  "getTaskList ident d user =
     (case user of
        None \<Rightarrow> (Inl AuthenticationError, d)
      | Some u \<Rightarrow>
          (case ObjectId ident of
             Inl err \<Rightarrow> (Inl err, d)
           | Inr i \<Rightarrow>
               (Inr (findOne (\<lambda>t. tl_id t = i) (coll_TaskList d)),
                logged (Read ''TaskList'') d)))"

subsection \<open>Mutations\<close>

record SignUpInput =
  su_email :: string
  su_password :: string
  su_name :: string
  su_avatar :: "string option"

record SignInInput =
  si_email :: string
  si_password :: string

record AuthUser =
  au_user :: User
  au_token :: token

text \<open>
  \<open>insertOne(doc)\<close> gives \<open>doc\<close> its \<open>_id\<close>, in the object it was passed: the document
  returned by a resolver after the insert is the document stored.
\<close>

definition signUp :: "env \<Rightarrow> SignUpInput \<Rightarrow> db \<Rightarrow> (error + AuthUser) \<times> db" where
  "signUp e input d =
     (let hashedPassword = hashSync (su_password input) (freshSalt e);
          user = \<lparr>u_id = freshId e, u_email = su_email input, u_password = hashedPassword,
                  u_name = su_name input, u_avatar = su_avatar input\<rparr>
      in case insertOne u_id user (coll_Users d) of
           Inl err \<Rightarrow> (Inl err, logged (Write ''Users'') d)
         | Inr us \<Rightarrow>
             (Inr \<lparr>au_user = user, au_token = getToken e user\<rparr>,
              logged (Write ''Users'') (d\<lparr>coll_Users := us\<rparr>)))"

definition signIn :: "env \<Rightarrow> SignInInput \<Rightarrow> db \<Rightarrow> (error + AuthUser) \<times> db" where
  "signIn e input d =
     (case findOne (\<lambda>u. u_email u = si_email input) (coll_Users d) of
        None \<Rightarrow> (Inl InvalidCredentials, logged (Read ''Users'') d)
      | Some user \<Rightarrow>
          (let isPasswordCorrect = compareSync (si_password input) (u_password user)
           in if \<not> isPasswordCorrect then (Inl InvalidCredentials, logged (Read ''Users'') d)
              else (Inr \<lparr>au_user = user, au_token = getToken e user\<rparr>,
                    logged (Read ''Users'') d)))"

definition createTaskList :: "env \<Rightarrow> string \<Rightarrow> db \<Rightarrow> User option \<Rightarrow> (error + TaskList) \<times> db" where
  "createTaskList e title d user =
     (case user of
        None \<Rightarrow> (Inl AuthenticationError, d)
      | Some u \<Rightarrow>
          (let newTaskList = \<lparr>tl_id = freshId e, tl_title = title, tl_createdAt = isoDate e,
                              tl_userIds = [u_id u]\<rparr>
           in case insertOne tl_id newTaskList (coll_TaskList d) of
                Inl err \<Rightarrow> (Inl err, logged (Write ''TaskList'') d)
              | Inr ts \<Rightarrow> (Inr newTaskList, logged (Write ''TaskList'') (d\<lparr>coll_TaskList := ts\<rparr>))))"

definition updateTaskList ::
  "string \<Rightarrow> string \<Rightarrow> db \<Rightarrow> User option \<Rightarrow> (error + TaskList option) \<times> db" where
  "updateTaskList ident title d user =
     (case user of
        None \<Rightarrow> (Inl AuthenticationError, d)
      | Some u \<Rightarrow>
          (case ObjectId ident of
             Inl err \<Rightarrow> (Inl err, d)
           | Inr i \<Rightarrow>
               (let d1 = logged (Write ''TaskList'')
                           (d\<lparr>coll_TaskList :=
                                 updateOne (\<lambda>t. tl_id t = i) (\<lambda>t. t\<lparr>tl_title := title\<rparr>)
                                   (coll_TaskList d)\<rparr>)
                in (Inr (findOne (\<lambda>t. tl_id t = i) (coll_TaskList d1)),
                    logged (Read ''TaskList'') d1))))"

definition addUserToTaskList ::
  "string \<Rightarrow> string \<Rightarrow> db \<Rightarrow> User option \<Rightarrow> (error + TaskList option) \<times> db" where
  "addUserToTaskList taskListId userId d user =
     (case user of
        None \<Rightarrow> (Inl AuthenticationError, d)
      | Some u \<Rightarrow>
          (case ObjectId taskListId of
             Inl err \<Rightarrow> (Inl err, d)
           | Inr i \<Rightarrow>
               (let d1 = logged (Read ''TaskList'') d
                in case findOne (\<lambda>t. tl_id t = i) (coll_TaskList d) of
                     None \<Rightarrow> (Inr None, d1)
                   | Some taskList \<Rightarrow>
                       if List.find (\<lambda>dbId. toString dbId = userId) (tl_userIds taskList) \<noteq> None
                       then (Inl UserAlreadyExists, d1)
                       else (case ObjectId userId of
                               Inl err \<Rightarrow> (Inl err, d1)
                             | Inr ui \<Rightarrow>
                                 (Inr (Some (taskList\<lparr>tl_userIds := tl_userIds taskList @ [ui]\<rparr>)),
                                  logged (Write ''TaskList'')
                                    (d1\<lparr>coll_TaskList :=
                                          updateOne (\<lambda>t. tl_id t = i)
                                            (\<lambda>t. t\<lparr>tl_userIds := tl_userIds t @ [ui]\<rparr>)
                                            (coll_TaskList d1)\<rparr>))))))"

definition deleteTaskList :: "string \<Rightarrow> db \<Rightarrow> User option \<Rightarrow> (error + bool) \<times> db" where
  "deleteTaskList ident d user =
     (case user of
        None \<Rightarrow> (Inl AuthenticationError, d)
      | Some u \<Rightarrow>
          (case ObjectId ident of
             Inl err \<Rightarrow> (Inl err, d)
           | Inr i \<Rightarrow>
               (Inr True,
                logged (Write ''TaskList'')
                  (d\<lparr>coll_TaskList := remove (\<lambda>t. tl_id t = i) (coll_TaskList d)\<rparr>))))"

definition createToDo ::
  "env \<Rightarrow> string \<Rightarrow> string \<Rightarrow> db \<Rightarrow> User option \<Rightarrow> (error + ToDo) \<times> db" where
  "createToDo e content taskListId d user =
     (case user of
        None \<Rightarrow> (Inl AuthenticationError, d)
      | Some u \<Rightarrow>
          (case ObjectId taskListId of
             Inl err \<Rightarrow> (Inl err, d)
           | Inr i \<Rightarrow>
               (let newToDo = \<lparr>td_id = freshId e, td_content = Some content, td_taskListId = i,
                               td_isCompleted = False, td_idField = None\<rparr>
                in case insertOne td_id newToDo (coll_ToDo d) of
                     Inl err \<Rightarrow> (Inl err, logged (Write ''ToDo'') d)
                   | Inr ts \<Rightarrow> (Inr newToDo, logged (Write ''ToDo'') (d\<lparr>coll_ToDo := ts\<rparr>)))))"

text \<open>
  The arguments of \<open>updateToDo\<close> as the resolver receives them, in one object \<open>data\<close>:
  \<open>content\<close> is optional, so it is absent (\<open>None\<close>), \<open>null\<close> (\<open>Some None\<close>) or a string.
  \<open>$set: data\<close> writes every field that \<open>data\<close> has.
\<close>

record updateToDo_data =
  data_id :: string
  data_content :: "string option option"
  data_isCompleted :: bool

definition set_data :: "updateToDo_data \<Rightarrow> ToDo \<Rightarrow> ToDo" where
  "set_data data doc =
     doc\<lparr>td_idField := Some (data_id data),
         td_content := (case data_content data of None \<Rightarrow> td_content doc | Some c \<Rightarrow> c),
         td_isCompleted := data_isCompleted data\<rparr>"

definition updateToDo ::
  "updateToDo_data \<Rightarrow> db \<Rightarrow> User option \<Rightarrow> (error + ToDo option) \<times> db" where
  "updateToDo data d user =
     (case user of
        None \<Rightarrow> (Inl AuthenticationError, d)
      | Some u \<Rightarrow>
          (case ObjectId (data_id data) of
             Inl err \<Rightarrow> (Inl err, d)
           | Inr i \<Rightarrow>
               (let d1 = logged (Write ''ToDo'')
                           (d\<lparr>coll_ToDo :=
                                 updateOne (\<lambda>t. td_id t = i) (set_data data) (coll_ToDo d)\<rparr>)
                in (Inr (findOne (\<lambda>t. td_id t = i) (coll_ToDo d1)),
                    logged (Read ''ToDo'') d1))))"

definition deleteToDo :: "string \<Rightarrow> db \<Rightarrow> User option \<Rightarrow> (error + bool) \<times> db" where
  "deleteToDo ident d user =
     (case user of
        None \<Rightarrow> (Inl AuthenticationError, d)
      | Some u \<Rightarrow>
          (case ObjectId ident of
             Inl err \<Rightarrow> (Inl err, d)
           | Inr i \<Rightarrow>
               (Inr True,
                logged (Write ''ToDo'')
                  (d\<lparr>coll_ToDo := remove (\<lambda>t. td_id t = i) (coll_ToDo d)\<rparr>))))"

subsection \<open>Field resolvers\<close>

text \<open>
  A JavaScript number is an IEEE-754 double. \<open>number\<close> keeps the value of a finite double
  as a rational. \<open>divide_double a b\<close> is the double that \<open>a / b\<close> evaluates to for two
  integers that are doubles themselves (below \<open>2 ^ 53\<close>): the quotient is scaled by a power
  of two, \<open>2 powi (- e)\<close>, into the range of 53-bit integers, rounded to the nearest integer
  with ties to the even one, and scaled back. The quotients formed here have a normal
  double as their result: the operands are \<open>100 * completed.length\<close> and \<open>todos.length\<close>,
  and the length of an array is below \<open>2 ^ 32\<close>.
\<close>

datatype number = Finite rat | Infinity | NaN

definition round_half_even :: "nat \<Rightarrow> nat \<Rightarrow> nat" where
  "round_half_even a b =
     (let q = a div b; r = a mod b
      in if 2 * r < b then q else if b < 2 * r then q + 1 else if even q then q else q + 1)"

function normalize_mantissa :: "nat \<Rightarrow> nat \<Rightarrow> int \<Rightarrow> nat \<times> nat \<times> int" where
  "normalize_mantissa a b e =
     (if a = 0 \<or> b = 0 then (a, b, e)
      else if a < 2 ^ 52 * b then normalize_mantissa (2 * a) b (e - 1)
      else if 2 ^ 53 * b \<le> a then normalize_mantissa a (2 * b) (e + 1)
      else (a, b, e))"
  by pat_completeness auto
termination
  by (relation "measures [\<lambda>(a, b, e). 2 ^ 52 * b - a, \<lambda>(a, b, e). a + 1 - 2 ^ 53 * b]") auto

declare normalize_mantissa.simps [simp del]

definition divide_double :: "nat \<Rightarrow> nat \<Rightarrow> number" where
  "divide_double a b =
     (if b = 0 then (if a = 0 then NaN else Infinity)
      else if a = 0 then Finite 0
      else (case normalize_mantissa a b 0 of
              (a', b', e) \<Rightarrow> Finite (of_nat (round_half_even a' b') * 2 powi e)))"

definition TaskList_progress :: "TaskList \<Rightarrow> db \<Rightarrow> number \<times> db" where
  "TaskList_progress parent d =
     (let todos = find_toArray (\<lambda>t. td_taskListId t = tl_id parent) (coll_ToDo d);
          completed = filter (\<lambda>todos. td_isCompleted todos) todos
      in (if length todos = 0 then Finite 0
          else divide_double (100 * length completed) (length todos),
          logged (Read ''ToDo'') d))"

definition TaskList_users :: "TaskList \<Rightarrow> db \<Rightarrow> User option list \<times> db" where
  "TaskList_users parent d =
     (map (\<lambda>userId. findOne (\<lambda>u. u_id u = userId) (coll_Users d)) (tl_userIds parent),
      d\<lparr>accesses := accesses d @ map (\<lambda>userId. Read ''Users'') (tl_userIds parent)\<rparr>)"

definition TaskList_todos :: "TaskList \<Rightarrow> db \<Rightarrow> ToDo list \<times> db" where
  "TaskList_todos parent d =
     (find_toArray (\<lambda>t. td_taskListId t = tl_id parent) (coll_ToDo d),
      logged (Read ''ToDo'') d)"

definition ToDo_taskList :: "ToDo \<Rightarrow> db \<Rightarrow> TaskList option \<times> db" where
  "ToDo_taskList parent d =
     (findOne (\<lambda>t. tl_id t = td_taskListId parent) (coll_TaskList d),
      logged (Read ''TaskList'') d)"

text \<open>
  What the client is sent. The schema's type \<open>User\<close> has the fields \<open>id\<close>, \<open>name\<close>,
  \<open>email\<close> and \<open>avatar\<close>, and \<open>AuthUser\<close> has \<open>user\<close> and \<open>token\<close>: the
  response to \<open>signUp\<close> and \<open>signIn\<close> is made of these fields of the object the resolver
  returned, and of no other. \<open>User.id\<close> is \<open>_id || id\<close>; a user document always has its
  \<open>_id\<close>, which is printed by \<open>toString\<close>.
\<close>

definition User_id :: "User \<Rightarrow> oid" where
  "User_id parent = u_id parent"

record UserPayload =
  p_id :: string
  p_name :: string
  p_email :: string
  p_avatar :: "string option"

record AuthUserPayload =
  p_user :: UserPayload
  p_token :: token

definition User_payload :: "User \<Rightarrow> UserPayload" where
  "User_payload parent =
     \<lparr>p_id = toString (User_id parent), p_name = u_name parent, p_email = u_email parent,
      p_avatar = u_avatar parent\<rparr>"

definition AuthUser_payload :: "AuthUser \<Rightarrow> AuthUserPayload" where
  "AuthUser_payload parent =
     \<lparr>p_user = User_payload (au_user parent), p_token = au_token parent\<rparr>"

definition signUp_response :: "env \<Rightarrow> SignUpInput \<Rightarrow> db \<Rightarrow> error + AuthUserPayload" where
  "signUp_response e input d =
     (case fst (signUp e input d) of
        Inl err \<Rightarrow> Inl err
      | Inr r \<Rightarrow> Inr (AuthUser_payload r))"

subsection \<open>One request\<close>

text \<open>
  The server builds the context of a request from its \<open>authorization\<close> header first
  (\<open>getUserFromToken\<close>); when that throws, the request fails and no resolver is called.
  Otherwise the resolver of the operation runs with the store and the user found.
\<close>

datatype operation =
    Q_myTaskLists
  | Q_getTaskList string
  | M_signUp SignUpInput
  | M_signIn SignInInput
  | M_createTaskList string
  | M_updateTaskList string string
  | M_deleteTaskList string
  | M_addUserToTaskList string string
  | M_createToDo string string
  | M_updateToDo updateToDo_data
  | M_deleteToDo string

datatype response =
    R_TaskLists "TaskList list"
  | R_TaskList "TaskList option"
  | R_AuthUser AuthUser
  | R_ToDo "ToDo option"
  | R_Boolean bool

definition returning :: "('a \<Rightarrow> response) \<Rightarrow> (error + 'a) \<times> db \<Rightarrow> (error + response) \<times> db" where
  "returning f r = (case fst r of Inl err \<Rightarrow> Inl err | Inr v \<Rightarrow> Inr (f v), snd r)"

fun resolve :: "env \<Rightarrow> operation \<Rightarrow> db \<Rightarrow> User option \<Rightarrow> (error + response) \<times> db" where
  "resolve e Q_myTaskLists d user = returning R_TaskLists (myTaskLists d user)"
| "resolve e (Q_getTaskList ident) d user = returning R_TaskList (getTaskList ident d user)"
| "resolve e (M_signUp input) d user = returning R_AuthUser (signUp e input d)"
| "resolve e (M_signIn input) d user = returning R_AuthUser (signIn e input d)"
| "resolve e (M_createTaskList title) d user =
     returning (\<lambda>t. R_TaskList (Some t)) (createTaskList e title d user)"
| "resolve e (M_updateTaskList ident title) d user =
     returning R_TaskList (updateTaskList ident title d user)"
| "resolve e (M_deleteTaskList ident) d user = returning R_Boolean (deleteTaskList ident d user)"
| "resolve e (M_addUserToTaskList taskListId userId) d user =
     returning R_TaskList (addUserToTaskList taskListId userId d user)"
| "resolve e (M_createToDo content taskListId) d user =
     returning (\<lambda>t. R_ToDo (Some t)) (createToDo e content taskListId d user)"
| "resolve e (M_updateToDo data) d user = returning R_ToDo (updateToDo data d user)"
| "resolve e (M_deleteToDo ident) d user = returning R_Boolean (deleteToDo ident d user)"

definition request :: "env \<Rightarrow> token option \<Rightarrow> operation \<Rightarrow> db \<Rightarrow> (error + response) \<times> db" where
  "request e authorization op d =
     (case getUserFromToken e authorization d of
        (Inl err, d1) \<Rightarrow> (Inl err, d1)
      | (Inr user, d1) \<Rightarrow> resolve e op d1 user)"

text \<open>
  The states of the store the server can be in: it starts empty, and changes by requests
  and by the field resolvers run on their results (which only read).
\<close>

inductive reachable :: "db \<Rightarrow> bool" where
  start: "reachable empty_db"
| by_request: "reachable d \<Longrightarrow> reachable (snd (request e authorization op d))"
| by_progress: "reachable d \<Longrightarrow> reachable (snd (TaskList_progress t d))"
| by_users: "reachable d \<Longrightarrow> reachable (snd (TaskList_users t d))"
| by_todos: "reachable d \<Longrightarrow> reachable (snd (TaskList_todos t d))"
| by_taskList: "reachable d \<Longrightarrow> reachable (snd (ToDo_taskList todo d))"

text \<open>What the store keeps true: every list has a member, and \<open>_id\<close> is a key.\<close>

definition members_nonempty :: "db \<Rightarrow> bool" where
  "members_nonempty d = list_all (\<lambda>t. tl_userIds t \<noteq> []) (coll_TaskList d)"

definition unique_ids :: "db \<Rightarrow> bool" where
  "unique_ids d =
     (distinct (map u_id (coll_Users d)) \<and> distinct (map tl_id (coll_TaskList d))
      \<and> distinct (map td_id (coll_ToDo d)))"

text \<open>
  No member is lost from \<open>d\<close> to \<open>d'\<close>: a list of \<open>d'\<close> with the identifier of a
  list of \<open>d\<close> has the members of that list, in order, before any others.
\<close>

definition members_kept :: "db \<Rightarrow> db \<Rightarrow> bool" where
  "members_kept d d' =
     list_all (\<lambda>t'. list_all (\<lambda>t. tl_id t' = tl_id t \<longrightarrow> prefix (tl_userIds t) (tl_userIds t'))
                       (coll_TaskList d))
       (coll_TaskList d')"

text \<open>A user identifier as the API prints it: the \<open>toString\<close> of the identifier it denotes.\<close>

definition canonical :: "string \<Rightarrow> bool" where
  "canonical s = (case ObjectId s of Inl err \<Rightarrow> False | Inr i \<Rightarrow> toString i = s)"

subsection \<open>A small store\<close>

text \<open>
  Two users, one list that only the first of them belongs to, and four to-dos in it, one
  of them completed. The properties below are run on it, and on the same store with its
  first three to-dos only.
\<close>

definition alice_id :: oid where
  "alice_id = Oid ''5f0000000000000000000001''"

definition bob_id :: oid where
  "bob_id = Oid ''5f0000000000000000000002''"

definition groceries_id :: oid where
  "groceries_id = Oid ''5f00000000000000000000a1''"

definition alice :: User where
  "alice = \<lparr>u_id = alice_id, u_email = ''alice@example.org'',
            u_password = Bcrypt ''salt-a'' ''wonderland'', u_name = ''Alice'', u_avatar = None\<rparr>"

definition bob :: User where
  "bob = \<lparr>u_id = bob_id, u_email = ''bob@example.org'',
          u_password = Bcrypt ''salt-b'' ''builder'', u_name = ''Bob'', u_avatar = None\<rparr>"

definition groceries :: TaskList where
  "groceries = \<lparr>tl_id = groceries_id, tl_title = ''Groceries'',
                tl_createdAt = ''2021-03-01T10:00:00.000Z'', tl_userIds = [alice_id]\<rparr>"

definition item :: "char \<Rightarrow> string \<Rightarrow> bool \<Rightarrow> ToDo" where
  "item c content done =
     \<lparr>td_id = Oid (''5f00000000000000000000b'' @ [c]), td_content = Some content,
      td_taskListId = groceries_id, td_isCompleted = done, td_idField = None\<rparr>"

definition small_db :: db where
  "small_db =
     \<lparr>coll_Users = [alice, bob], coll_TaskList = [groceries],
      coll_ToDo = [item CHR ''1'' ''milk'' True, item CHR ''2'' ''eggs'' False,
                   item CHR ''3'' ''flour'' False, item CHR ''4'' ''salt'' False],
      accesses = []\<rparr>"

definition thirds_db :: db where
  "thirds_db =
     \<lparr>coll_Users = [alice, bob], coll_TaskList = [groceries],
      coll_ToDo = [item CHR ''1'' ''milk'' True, item CHR ''2'' ''eggs'' False,
                   item CHR ''3'' ''flour'' False],
      accesses = []\<rparr>"

definition env0 :: env where
  "env0 = \<lparr>JWT_SECRET = ''s3cr3t'', clock = 1614592800,
           isoDate = ''2021-03-01T10:00:00.000Z'', freshId = Oid ''5f00000000000000000000c1'',
           freshSalt = ''salt-c''\<rparr>"

text \<open>
  Carol signs up on the empty store and, a minute later, creates a list with the token she
  was given: a store the server reaches.
\<close>

definition carol_input :: SignUpInput where
  "carol_input = \<lparr>su_email = ''carol@example.org'', su_password = ''looking-glass'',
                  su_name = ''Carol'', su_avatar = None\<rparr>"

definition carol :: User where
  "carol = \<lparr>u_id = Oid ''5f00000000000000000000c1'', u_email = ''carol@example.org'',
            u_password = Bcrypt ''salt-c'' ''looking-glass'', u_name = ''Carol'',
            u_avatar = None\<rparr>"

definition env1 :: env where
  "env1 = \<lparr>JWT_SECRET = ''s3cr3t'', clock = 1614592860,
           isoDate = ''2021-03-01T10:01:00.000Z'', freshId = Oid ''5f00000000000000000000a2'',
           freshSalt = ''salt-d''\<rparr>"

definition after_signUp :: db where
  "after_signUp = snd (request env0 None (M_signUp carol_input) empty_db)"

definition after_createTaskList :: db where
  "after_createTaskList =
     snd (request env1 (Some (getToken env0 carol)) (M_createTaskList ''Chores'') after_signUp)"

definition chores :: TaskList where
  "chores = \<lparr>tl_id = Oid ''5f00000000000000000000a2'', tl_title = ''Chores'',
             tl_createdAt = ''2021-03-01T10:01:00.000Z'',
             tl_userIds = [Oid ''5f00000000000000000000c1'']\<rparr>"


section \<open>Facts about the store's operations\<close>

lemma findOne_None: "findOne q docs = None \<longleftrightarrow> (\<forall>x \<in> set docs. \<not> q x)"
  by (auto simp: findOne_def find_None_iff)

lemma findOne_Some_set: "findOne q docs = Some x \<Longrightarrow> x \<in> set docs \<and> q x"
  by (induction docs) (auto simp: findOne_def split: if_splits)

lemma findOne_key:
  "distinct (map key docs) \<Longrightarrow> x \<in> set docs \<Longrightarrow> findOne (\<lambda>y. key y = key x) docs = Some x"
  by (induction docs) (auto simp: findOne_def)

lemma findOne_updateOne:
  "findOne q docs = Some x \<Longrightarrow> q (f x) \<Longrightarrow> findOne q (updateOne q f docs) = Some (f x)"
  by (induction docs) (auto simp: findOne_def split: if_splits)

lemma findOne_remove: "findOne q (remove q docs) = None"
  by (simp add: findOne_None remove_def)

lemma map_key_updateOne:
  "(\<And>x. key (f x) = key x) \<Longrightarrow> map key (updateOne q f docs) = map key docs"
  by (induction docs) auto

lemma set_updateOne:
  "findOne q docs = Some x \<Longrightarrow> f x \<in> set (updateOne q f docs)"
  by (induction docs) (auto simp: findOne_def split: if_splits)

text \<open>The canonical strings are the 24 lower-case hexadecimal digits.\<close>

lemma length_concat_hexByte: "length (concat (map hexByte s)) = 2 * length s"
  by (induction s) (auto simp: hexByte_def)

lemma lowerHex_fixed:
  "isHexDigit c \<Longrightarrow> lowerHex c = c \<longleftrightarrow> c \<in> set ''0123456789abcdef''"
  by (auto simp: isHexDigit_def lowerHex_def)

lemma canonical_iff:
  "canonical s \<longleftrightarrow> length s = 24 \<and> list_all (\<lambda>c. c \<in> set ''0123456789abcdef'') s"
proof (cases "length s = 24 \<and> list_all isHexDigit s")
  case True
  then have o: "ObjectId s = Inr (Oid (map lowerHex s))" by (simp add: ObjectId_def)
  have "map lowerHex s = s \<longleftrightarrow> (\<forall>c \<in> set s. lowerHex c = c)"
    by (simp add: map_idI map_eq_conv [of lowerHex s id, simplified])
  also have "\<dots> \<longleftrightarrow> (\<forall>c \<in> set s. c \<in> set ''0123456789abcdef'')"
    using True lowerHex_fixed by (auto simp: list_all_iff)
  finally show ?thesis using True by (simp add: canonical_def o list_all_iff)
next
  case False
  have nolower: "\<not> (length s = 24 \<and> list_all (\<lambda>c. c \<in> set ''0123456789abcdef'') s)"
    using False by (auto simp: list_all_iff isHexDigit_def)
  have "\<not> canonical s"
  proof (cases "length s = 12")
    case True
    with False have "ObjectId s = Inr (Oid (concat (map hexByte s)))" by (simp add: ObjectId_def)
    moreover have "concat (map hexByte s) \<noteq> s"
      using length_concat_hexByte [of s] True by (metis length_0_conv mult_2 add_cancel_right_left zero_neq_numeral)
    ultimately show ?thesis by (simp add: canonical_def)
  next
    case False
    with \<open>\<not> (length s = 24 \<and> list_all isHexDigit s)\<close> have "ObjectId s = Inl InvalidObjectId"
      by (simp add: ObjectId_def)
    then show ?thesis by (simp add: canonical_def)
  qed
  with nolower show ?thesis by simp
qed

lemma canonical_find:
  assumes "canonical userId" and "ObjectId userId = Inr ui"
  shows "List.find (\<lambda>dbId. toString dbId = userId) ids \<noteq> None \<longleftrightarrow> ui \<in> set ids"
proof -
  have s: "toString ui = userId" using assms by (simp add: canonical_def)
  have "(\<exists>x \<in> set ids. toString x = userId) \<longleftrightarrow> ui \<in> set ids"
  proof
    assume "\<exists>x \<in> set ids. toString x = userId"
    then obtain x where x: "x \<in> set ids" "toString x = toString ui" using s by auto
    then have "x = ui" by (simp add: oid.expand)
    with x show "ui \<in> set ids" by simp
  next
    assume "ui \<in> set ids"
    with s show "\<exists>x \<in> set ids. toString x = userId" by auto
  qed
  then show ?thesis by (auto simp: find_None_iff)
qed

lemma addUser_malformed:
  "ObjectId taskListId = Inl err \<Longrightarrow> addUserToTaskList taskListId userId d (Some u) = (Inl err, d)"
  by (simp add: addUserToTaskList_def)

lemma addUser_missing:
  assumes "ObjectId taskListId = Inr i" and "i \<notin> set (map tl_id (coll_TaskList d))"
  shows "addUserToTaskList taskListId userId d (Some u) = (Inr None, logged (Read ''TaskList'') d)"
proof -
  have "findOne (\<lambda>t. tl_id t = i) (coll_TaskList d) = None"
    using assms(2) by (auto simp: findOne_None)
  then show ?thesis using assms(1) by (simp add: addUserToTaskList_def Let_def)
qed

lemma addUser_conflict:
  assumes "ObjectId taskListId = Inr i"
    and "findOne (\<lambda>t. tl_id t = i) (coll_TaskList d) = Some t"
    and "List.find (\<lambda>dbId. toString dbId = userId) (tl_userIds t) \<noteq> None"
  shows "addUserToTaskList taskListId userId d (Some u)
           = (Inl UserAlreadyExists, logged (Read ''TaskList'') d)"
  using assms by (simp add: addUserToTaskList_def Let_def)

lemma addUser_push:
  assumes "ObjectId taskListId = Inr i"
    and "findOne (\<lambda>t. tl_id t = i) (coll_TaskList d) = Some t"
    and "List.find (\<lambda>dbId. toString dbId = userId) (tl_userIds t) = None"
    and "ObjectId userId = Inr ui"
  shows "addUserToTaskList taskListId userId d (Some u) =
      (Inr (Some (t\<lparr>tl_userIds := tl_userIds t @ [ui]\<rparr>)),
       logged (Write ''TaskList'')
         ((logged (Read ''TaskList'') d)\<lparr>coll_TaskList :=
             updateOne (\<lambda>t. tl_id t = i) (\<lambda>t. t\<lparr>tl_userIds := tl_userIds t @ [ui]\<rparr>)
               (coll_TaskList (logged (Read ''TaskList'') d))\<rparr>))"
  using assms by (simp add: addUserToTaskList_def Let_def)

lemma request_context_error:
  "getUserFromToken e authorization d = (Inl err, d1) \<Longrightarrow> request e authorization op d = (Inl err, d1)"
  by (simp add: request_def)

subsection \<open>The small store, evaluated\<close>

lemmas sample_defs = small_db_def alice_def bob_def groceries_def item_def alice_id_def bob_id_def
  groceries_id_def env0_def

lemma ObjectId_lower24:
  "ObjectId ''5f00000000000000000000a1'' = Inr groceries_id"
  by (simp add: ObjectId_def isHexDigit_def lowerHex_def groceries_id_def)

lemma ObjectId_bob: "ObjectId ''5f0000000000000000000002'' = Inr bob_id"
  by (simp add: ObjectId_def isHexDigit_def lowerHex_def bob_id_def)

lemma ObjectId_alice: "ObjectId ''5f0000000000000000000001'' = Inr alice_id"
  by (simp add: ObjectId_def isHexDigit_def lowerHex_def alice_id_def)

lemma ObjectId_BOB: "ObjectId ''5F0000000000000000000002'' = Inr bob_id"
  by (simp add: ObjectId_def isHexDigit_def lowerHex_def bob_id_def)

lemma ObjectId_short: "ObjectId ''groceries'' = Inl InvalidObjectId"
  by (simp add: ObjectId_def)

lemma findOne_groceries:
  "findOne (\<lambda>t. tl_id t = groceries_id) (coll_TaskList small_db) = Some groceries"
  by (simp add: findOne_def small_db_def groceries_def)

lemma ObjectId_eggs: "ObjectId ''5f00000000000000000000b2'' = Inr (Oid ''5f00000000000000000000b2'')"
  by (simp add: ObjectId_def isHexDigit_def lowerHex_def)

lemma ObjectId_carol:
  "ObjectId ''5f00000000000000000000c1'' = Inr (Oid ''5f00000000000000000000c1'')"
  by (simp add: ObjectId_def isHexDigit_def lowerHex_def)

lemma after_signUp_value:
  "after_signUp = \<lparr>coll_Users = [carol], coll_TaskList = [], coll_ToDo = [],
                    accesses = [Write ''Users'']\<rparr>"
  by (simp add: after_signUp_def request_def signUp_def insertOne_def hashSync_def Let_def
      returning_def logged_def empty_db_def env0_def carol_input_def carol_def)


lemma token_carol:
  "getToken env0 carol = Jwt \<lparr>jwt_id = Some ''5f00000000000000000000c1'', jwt_iat = 1614592800,
      jwt_exp = Some 1617184800\<rparr> ''s3cr3t''"
  by (simp add: getToken_def jwt_sign_def thirty_days_def env0_def carol_def)

lemma verify_carol:
  "jwt_verify (getToken env0 carol) (JWT_SECRET env1) (clock env1)
     = Inr \<lparr>jwt_id = Some ''5f00000000000000000000c1'', jwt_iat = 1614592800,
      jwt_exp = Some 1617184800\<rparr>"
  by (simp add: token_carol jwt_verify_def env1_def)

lemma context_carol:
  "getUserFromToken env1 (Some (getToken env0 carol)) after_signUp
     = (Inr (Some carol), logged (Read ''Users'') after_signUp)"
proof -
  have ne: "getToken env0 carol \<noteq> Raw []" by (simp add: token_carol)
  have f: "findOne (\<lambda>u. u_id u = Oid ''5f00000000000000000000c1'') (coll_Users after_signUp)
      = Some carol"
    by (simp add: after_signUp_value findOne_def carol_def)
  show ?thesis
    by (simp add: ne verify_carol ObjectId_carol f)
qed


lemma create_chores:
  "createTaskList env1 ''Chores'' (logged (Read ''Users'') after_signUp) (Some carol)
     = (Inr chores, \<lparr>coll_Users = [carol], coll_TaskList = [chores], coll_ToDo = [],
       accesses = [Write ''Users'', Read ''Users'', Write ''TaskList'']\<rparr>)"
  by (simp add: createTaskList_def insertOne_def Let_def logged_def after_signUp_value
      env1_def chores_def carol_def)

lemma after_createTaskList_value:
  "after_createTaskList = \<lparr>coll_Users = [carol], coll_TaskList = [chores], coll_ToDo = [],
       accesses = [Write ''Users'', Read ''Users'', Write ''TaskList'']\<rparr>"
  by (simp add: after_createTaskList_def request_def context_carol create_chores returning_def
      del: getUserFromToken.simps)

lemma reachable_after_createTaskList: "reachable after_createTaskList"
  unfolding after_createTaskList_def after_signUp_def
  by (intro reachable.by_request reachable.start)

lemma eggs_in_small_db:
  "item CHR ''2'' ''eggs'' False \<in> set (coll_ToDo small_db)
   \<and> td_taskListId (item CHR ''2'' ''eggs'' False) = groceries_id
   \<and> distinct (map td_id (coll_ToDo small_db))"
  by (simp add: small_db_def item_def)

section \<open>Facts about the division of doubles\<close>

lemma normalize_mantissa_props:
  "0 < a \<Longrightarrow> 0 < b \<Longrightarrow> normalize_mantissa a b e = (a', b', e') \<Longrightarrow>
     2 ^ 52 * b' \<le> a' \<and> a' < 2 ^ 53 * b' \<and> 0 < b'
     \<and> (of_nat a' / of_nat b' :: rat) * 2 powi e' = (of_nat a / of_nat b) * 2 powi e"
proof (induction a b e rule: normalize_mantissa.induct)
  case (1 a b e)
  show ?case
  proof (cases "a < 2 ^ 52 * b")
    case True
    with 1 have n: "normalize_mantissa (2 * a) b (e - 1) = (a', b', e')"
      by (simp add: normalize_mantissa.simps [of a b e])
    have "2 ^ 52 * b' \<le> a' \<and> a' < 2 ^ 53 * b' \<and> 0 < b'
      \<and> (of_nat a' / of_nat b' :: rat) * 2 powi e' = (of_nat (2 * a) / of_nat b) * 2 powi (e - 1)"
      using "1.IH"(1) [OF _ True _ _ n] "1.prems" by simp
    moreover have "(of_nat (2 * a) / of_nat b :: rat) * 2 powi (e - 1) = (of_nat a / of_nat b) * 2 powi e"
      by (simp add: power_int_diff)
    ultimately show ?thesis by simp
  next
    case False
    show ?thesis
    proof (cases "2 ^ 53 * b \<le> a")
      case True
      with 1 False have n: "normalize_mantissa a (2 * b) (e + 1) = (a', b', e')"
        by (simp add: normalize_mantissa.simps [of a b e])
      have "2 ^ 52 * b' \<le> a' \<and> a' < 2 ^ 53 * b' \<and> 0 < b'
        \<and> (of_nat a' / of_nat b' :: rat) * 2 powi e' = (of_nat a / of_nat (2 * b)) * 2 powi (e + 1)"
        using "1.IH"(2) [OF _ False True _ _ n] "1.prems" by simp
      moreover have "(of_nat a / of_nat (2 * b) :: rat) * 2 powi (e + 1) = (of_nat a / of_nat b) * 2 powi e"
        by (simp add: power_int_add)
      ultimately show ?thesis by simp
    next
      case notbig: False
      with 1 False have "(a', b', e') = (a, b, e)"
        by (simp add: normalize_mantissa.simps [of a b e])
      with False notbig "1.prems" show ?thesis by simp
    qed
  qed
qed

lemma round_half_even_near:
  assumes "0 < b"
  shows "\<bar>of_nat (round_half_even a b) - (of_nat a / of_nat b :: rat)\<bar> \<le> 1 / 2"
proof -
  define q r where "q = a div b" and "r = a mod b"
  have a: "a = q * b + r" and r: "r < b" using assms by (simp_all add: q_def r_def)
  have b: "(0 :: rat) < of_nat b" using assms by simp
  have frac: "(of_nat a / of_nat b :: rat) = of_nat q + of_nat r / of_nat b"
    using b by (simp add: a field_simps)
  have low: "2 * r \<le> b \<Longrightarrow> \<bar>of_nat q - (of_nat a / of_nat b :: rat)\<bar> \<le> 1 / 2"
  proof -
    assume "2 * r \<le> b"
    then have "(of_nat (2 * r) :: rat) \<le> of_nat b" by (simp only: of_nat_le_iff)
    then have "(of_nat r / of_nat b :: rat) \<le> 1 / 2" using b by (simp add: field_simps)
    moreover have "(0 :: rat) \<le> of_nat r / of_nat b" by simp
    ultimately show ?thesis by (simp add: frac)
  qed
  have high: "b \<le> 2 * r \<Longrightarrow> \<bar>of_nat (q + 1) - (of_nat a / of_nat b :: rat)\<bar> \<le> 1 / 2"
  proof -
    assume "b \<le> 2 * r"
    then have "(of_nat b :: rat) \<le> of_nat (2 * r)" by (simp only: of_nat_le_iff)
    then have "(1 / 2 :: rat) \<le> of_nat r / of_nat b" using b by (simp add: field_simps)
    moreover have "(of_nat r / of_nat b :: rat) < 1" using r b by simp
    ultimately show ?thesis by (simp add: frac)
  qed
  show ?thesis
    using low high unfolding round_half_even_def Let_def q_def [symmetric] r_def [symmetric]
    by (auto simp del: of_nat_add of_nat_Suc)
qed

lemma round_half_even_le:
  assumes "0 < b" and "a \<le> K * b"
  shows "round_half_even a b \<le> K"
proof -
  have q: "a div b \<le> K" using div_le_mono [OF assms(2), of b] assms(1) by simp
  have "a div b < K" if "0 < a mod b"
  proof (rule ccontr)
    assume "\<not> a div b < K"
    with q have "a div b = K" by simp
    then have "a = K * b + a mod b" using div_mult_mod_eq [of a b] by simp
    with that assms(2) show False by simp
  qed
  then show ?thesis using q assms(1)
    unfolding round_half_even_def Let_def by auto
qed


lemma power_int_nonpos: "e \<le> 0 \<Longrightarrow> (2 :: rat) powi e = 1 / 2 ^ nat (- e)"
  by (cases "e = 0") (simp_all add: power_int_def power_divide inverse_eq_divide)

lemma scaled_back: "m * (1 / c) = q \<Longrightarrow> c \<noteq> 0 \<Longrightarrow> m = q * (c :: rat)"
  by auto

lemma divide_double_value:
  assumes a: "0 < a" and b: "0 < b"
  shows "\<exists>x. divide_double a b = Finite x
           \<and> \<bar>x - of_nat a / of_nat b\<bar> \<le> (of_nat a / of_nat b) / 2 ^ 53
           \<and> 0 \<le> x
           \<and> (K < 2 ^ 52 \<and> a \<le> K * b \<longrightarrow> x \<le> of_nat K)"
proof -
  obtain a' b' e where n: "normalize_mantissa a b 0 = (a', b', e)"
    by (cases "normalize_mantissa a b 0") auto
  let ?q = "of_nat a / of_nat b :: rat"
  let ?m = "of_nat a' / of_nat b' :: rat"
  let ?n = "round_half_even a' b'"
  let ?x = "of_nat ?n * 2 powi e :: rat"
  from normalize_mantissa_props [OF a b n]
  have lo: "2 ^ 52 * b' \<le> a'" and b': "0 < b'" and scale: "?m * 2 powi e = ?q"
    by simp_all
  have val: "divide_double a b = Finite ?x"
    using a b by (simp add: divide_double_def n)
  have pos: "(0 :: rat) < 2 powi e" by simp
  have "(of_nat (2 ^ 52 * b') :: rat) \<le> of_nat a'" using lo by (simp only: of_nat_le_iff)
  then have m: "(2 ^ 52 :: rat) \<le> ?m" using b' by (simp add: field_simps)
  have near: "\<bar>of_nat ?n - ?m\<bar> \<le> 1 / 2" using b' by (rule round_half_even_near)
  have "?x - ?q = (of_nat ?n - ?m) * 2 powi e"
    unfolding scale [symmetric] by (simp only: left_diff_distrib)
  then have "\<bar>?x - ?q\<bar> = \<bar>of_nat ?n - ?m\<bar> * \<bar>2 powi e\<bar>"
    by (simp only: abs_mult)
  also have "\<dots> = \<bar>of_nat ?n - ?m\<bar> * 2 powi e"
    using pos by simp
  also have "\<dots> \<le> 1 / 2 * 2 powi e"
    by (rule mult_right_mono [OF near]) simp
  also have "\<dots> \<le> ?q / 2 ^ 53"
  proof -
    have "2 ^ 52 * 2 powi e \<le> ?m * 2 powi e" by (rule mult_right_mono [OF m]) simp
    then have "2 ^ 52 * 2 powi e \<le> ?q" by (simp only: scale)
    then show ?thesis by simp
  qed
  finally have err: "\<bar>?x - ?q\<bar> \<le> ?q / 2 ^ 53" .
  have nonneg: "0 \<le> ?x" by simp
  have upper: "?x \<le> of_nat K" if K: "K < 2 ^ 52" and le: "a \<le> K * b"
  proof -
    have "(of_nat a :: rat) \<le> of_nat (K * b)" using le by (simp only: of_nat_le_iff)
    then have q: "?q \<le> of_nat K" using b by (simp add: field_simps)
    have e: "e \<le> 0"
    proof (rule ccontr)
      assume "\<not> e \<le> 0"
      then have "(1 :: rat) \<le> 2 powi e" by (simp add: one_le_power_int)
      then have "?m * 1 \<le> ?m * 2 powi e" by (rule mult_left_mono) simp
      then have "?m \<le> of_nat K" using q scale by simp
      moreover have "(of_nat K :: rat) < 2 ^ 52"
        using K by (metis of_nat_less_iff of_nat_numeral of_nat_power)
      ultimately show False using m by simp
    qed
    define k where "k = nat (- e)"
    have p: "(2 :: rat) powi e = 1 / 2 ^ k" using e by (simp add: k_def power_int_nonpos)
    have "?m * (1 / 2 ^ k) = ?q" using scale by (simp only: p)
    then have "?m = ?q * 2 ^ k" by (rule scaled_back) simp
    moreover have "?q * 2 ^ k \<le> of_nat K * 2 ^ k" by (rule mult_right_mono [OF q]) simp
    ultimately have "?m \<le> of_nat K * 2 ^ k" by simp
    then have "(of_nat a' :: rat) \<le> of_nat (K * 2 ^ k * b')" using b' by (simp add: field_simps)
    then have "a' \<le> K * 2 ^ k * b'" by (simp only: of_nat_le_iff)
    then have "?n \<le> K * 2 ^ k" using b' by (intro round_half_even_le)
    then have "(of_nat ?n :: rat) \<le> of_nat (K * 2 ^ k)" by (simp only: of_nat_le_iff)
    then show ?thesis by (simp add: p field_simps)
  qed
  show ?thesis using val err nonneg upper by blast
qed

lemma quarter_double: "divide_double 100 4 = Finite 25"
  by (simp add: divide_double_def normalize_mantissa.simps round_half_even_def power_int_def
      power_divide Let_def)

lemma third_double: "divide_double 100 3 = Finite (4691249611844267 / 140737488355328)"
  by (simp add: divide_double_def normalize_mantissa.simps round_half_even_def power_int_def
      power_divide Let_def)

lemma thirds_lengths:
  "length (filter (\<lambda>x. td_taskListId x = tl_id groceries) (coll_ToDo thirds_db)) = 3
   \<and> length (filter (\<lambda>x. td_taskListId x = tl_id groceries \<and> td_isCompleted x)
         (coll_ToDo thirds_db)) = 1"
  by (simp add: thirds_db_def groceries_def item_def)

lemma TaskList_progress_value:
  "fst (TaskList_progress t d) =
     (if length (filter (\<lambda>x. td_taskListId x = tl_id t) (coll_ToDo d)) = 0 then Finite 0
      else divide_double
             (100 * length (filter (\<lambda>x. td_taskListId x = tl_id t \<and> td_isCompleted x) (coll_ToDo d)))
             (length (filter (\<lambda>x. td_taskListId x = tl_id t) (coll_ToDo d))))"
proof -
  have both: "filter td_isCompleted (filter (\<lambda>x. td_taskListId x = tl_id t) (coll_ToDo d))
      = filter (\<lambda>x. td_taskListId x = tl_id t \<and> td_isCompleted x) (coll_ToDo d)"
    by (simp add: conj_commute)
  show ?thesis
    unfolding TaskList_progress_def find_toArray_def Let_def fst_conv both ..
qed

section \<open>What every request preserves\<close>

lemma list_all_updateOne:
  "list_all P docs \<Longrightarrow> (\<And>x. P x \<Longrightarrow> P (f x)) \<Longrightarrow> list_all P (updateOne q f docs)"
  by (induction docs) auto

lemma list_all_remove: "list_all P docs \<Longrightarrow> list_all P (remove q docs)"
  by (induction docs) (auto simp: remove_def)

lemma list_all_insertOne:
  "insertOne key doc docs = Inr ts \<Longrightarrow> list_all P docs \<Longrightarrow> P doc \<Longrightarrow> list_all P ts"
  by (auto simp: insertOne_def split: if_splits)

lemma snd_returning: "snd (returning f r) = snd r"
  by (simp add: returning_def)

lemma coll_TaskList_logged: "coll_TaskList (logged a d) = coll_TaskList d"
  by (simp add: logged_def)

lemma getUserFromToken_colls:
  "coll_TaskList (snd (getUserFromToken e authorization d)) = coll_TaskList d
   \<and> coll_Users (snd (getUserFromToken e authorization d)) = coll_Users d
   \<and> coll_ToDo (snd (getUserFromToken e authorization d)) = coll_ToDo d"
  by (cases authorization) (auto simp: logged_def split: sum.splits option.splits)

lemma members_myTaskLists: "members_nonempty d \<Longrightarrow> members_nonempty (snd (myTaskLists d user))"
  by (simp add: myTaskLists_def members_nonempty_def logged_def split: option.splits)

lemma members_getTaskList: "members_nonempty d \<Longrightarrow> members_nonempty (snd (getTaskList ident d user))"
  by (simp add: getTaskList_def members_nonempty_def logged_def split: option.splits sum.splits)

lemma members_signUp: "members_nonempty d \<Longrightarrow> members_nonempty (snd (signUp e input d))"
  by (simp add: signUp_def members_nonempty_def logged_def Let_def split: sum.splits)

lemma members_signIn: "members_nonempty d \<Longrightarrow> members_nonempty (snd (signIn e input d))"
  by (simp add: signIn_def members_nonempty_def logged_def Let_def split: option.splits)

lemma members_createTaskList:
  "members_nonempty d \<Longrightarrow> members_nonempty (snd (createTaskList e title d user))"
  by (auto simp: createTaskList_def members_nonempty_def logged_def Let_def insertOne_def
      split: option.splits sum.splits if_splits)

lemma members_updateTaskList:
  "members_nonempty d \<Longrightarrow> members_nonempty (snd (updateTaskList ident title d user))"
  by (auto simp: updateTaskList_def members_nonempty_def logged_def Let_def
      split: option.splits sum.splits intro: list_all_updateOne)

lemma members_addUserToTaskList:
  "members_nonempty d \<Longrightarrow> members_nonempty (snd (addUserToTaskList taskListId userId d user))"
  by (auto simp: addUserToTaskList_def members_nonempty_def logged_def Let_def
      split: option.splits sum.splits intro: list_all_updateOne)

lemma members_deleteTaskList:
  "members_nonempty d \<Longrightarrow> members_nonempty (snd (deleteTaskList ident d user))"
  by (auto simp: deleteTaskList_def members_nonempty_def logged_def
      split: option.splits sum.splits intro: list_all_remove)

lemma members_createToDo:
  "members_nonempty d \<Longrightarrow> members_nonempty (snd (createToDo e content taskListId d user))"
  by (simp add: createToDo_def members_nonempty_def logged_def Let_def
      split: option.splits sum.splits)

lemma members_updateToDo:
  "members_nonempty d \<Longrightarrow> members_nonempty (snd (updateToDo data d user))"
  by (simp add: updateToDo_def members_nonempty_def logged_def Let_def
      split: option.splits sum.splits)

lemma members_deleteToDo:
  "members_nonempty d \<Longrightarrow> members_nonempty (snd (deleteToDo ident d user))"
  by (simp add: deleteToDo_def members_nonempty_def logged_def split: option.splits sum.splits)

lemma members_resolve: "members_nonempty d \<Longrightarrow> members_nonempty (snd (resolve e op d user))"
  by (cases op)
    (simp_all add: snd_returning members_myTaskLists members_getTaskList members_signUp
      members_signIn members_createTaskList members_updateTaskList members_addUserToTaskList
      members_deleteTaskList members_createToDo members_updateToDo members_deleteToDo)

lemma members_getUserFromToken:
  "members_nonempty d \<Longrightarrow> members_nonempty (snd (getUserFromToken e authorization d))"
  by (simp add: members_nonempty_def getUserFromToken_colls)

lemma members_request:
  assumes "members_nonempty d"
  shows "members_nonempty (snd (request e authorization op d))"
proof (cases "getUserFromToken e authorization d")
  case (Pair r d1)
  have d1: "members_nonempty d1"
    using members_getUserFromToken [OF assms, of e authorization] Pair by simp
  show ?thesis
  proof (cases r)
    case (Inl err)
    with Pair d1 show ?thesis by (simp add: request_def)
  next
    case (Inr user)
    with Pair members_resolve [OF d1, of e op user] show ?thesis by (simp add: request_def)
  qed
qed

lemma members_field_resolvers:
  "members_nonempty d \<Longrightarrow> members_nonempty (snd (TaskList_progress t d))"
  "members_nonempty d \<Longrightarrow> members_nonempty (snd (TaskList_users t d))"
  "members_nonempty d \<Longrightarrow> members_nonempty (snd (TaskList_todos t d))"
  "members_nonempty d \<Longrightarrow> members_nonempty (snd (ToDo_taskList todo d))"
  by (simp_all add: members_nonempty_def TaskList_progress_def TaskList_users_def
      TaskList_todos_def ToDo_taskList_def logged_def Let_def)

lemma members_reachable: "reachable d \<Longrightarrow> members_nonempty d"
proof (induction rule: reachable.induct)
  case start
  show ?case by (simp add: members_nonempty_def empty_db_def)
next
  case (by_request d e authorization op)
  then show ?case by (simp add: members_request)
qed (simp_all add: members_field_resolvers)

lemma distinct_insertOne:
  "insertOne key doc docs = Inr ts \<Longrightarrow> distinct (map key docs) \<Longrightarrow> distinct (map key ts)"
  by (auto simp: insertOne_def split: if_splits)

lemma distinct_updateOne:
  "(\<And>x. key (f x) = key x) \<Longrightarrow> distinct (map key docs) \<Longrightarrow> distinct (map key (updateOne q f docs))"
  by (simp add: map_key_updateOne)

lemma distinct_remove: "distinct (map key docs) \<Longrightarrow> distinct (map key (remove q docs))"
  by (simp add: remove_def distinct_map_filter)

lemma td_id_set_data: "td_id (set_data data doc) = td_id doc"
  by (simp add: set_data_def)

lemma unique_resolve:
  assumes u: "unique_ids d"
  shows "unique_ids (snd (resolve e op d user))"
proof (cases op)
  case Q_myTaskLists
  then show ?thesis
    using u by (simp add: snd_returning myTaskLists_def unique_ids_def logged_def split: option.splits)
next
  case (Q_getTaskList ident)
  then show ?thesis
    using u by (simp add: snd_returning getTaskList_def unique_ids_def logged_def
        split: option.splits sum.splits)
next
  case (M_signUp input)
  then show ?thesis
    using u by (auto simp: snd_returning signUp_def unique_ids_def logged_def Let_def
        split: sum.splits dest: distinct_insertOne)
next
  case (M_signIn input)
  then show ?thesis
    using u by (simp add: snd_returning signIn_def unique_ids_def logged_def Let_def
        split: option.splits)
next
  case (M_createTaskList title)
  then show ?thesis
    using u by (auto simp: snd_returning createTaskList_def unique_ids_def logged_def Let_def
        split: option.splits sum.splits dest: distinct_insertOne)
next
  case (M_updateTaskList ident title)
  then show ?thesis
    using u by (auto simp: snd_returning updateTaskList_def unique_ids_def logged_def Let_def
        map_key_updateOne split: option.splits sum.splits)
next
  case (M_deleteTaskList ident)
  then show ?thesis
    using u by (auto simp: snd_returning deleteTaskList_def unique_ids_def logged_def
        split: option.splits sum.splits intro: distinct_remove)
next
  case (M_addUserToTaskList taskListId userId)
  then show ?thesis
    using u by (auto simp: snd_returning addUserToTaskList_def unique_ids_def logged_def Let_def
        map_key_updateOne split: option.splits sum.splits)
next
  case (M_createToDo content taskListId)
  then show ?thesis
    using u by (auto simp: snd_returning createToDo_def unique_ids_def logged_def Let_def
        split: option.splits sum.splits dest: distinct_insertOne)
next
  case (M_updateToDo data)
  then show ?thesis
    using u by (auto simp: snd_returning updateToDo_def unique_ids_def logged_def Let_def
        map_key_updateOne td_id_set_data split: option.splits sum.splits)
next
  case (M_deleteToDo ident)
  then show ?thesis
    using u by (auto simp: snd_returning deleteToDo_def unique_ids_def logged_def
        split: option.splits sum.splits intro: distinct_remove)
qed

lemma unique_getUserFromToken:
  "unique_ids d \<Longrightarrow> unique_ids (snd (getUserFromToken e authorization d))"
  by (simp add: unique_ids_def getUserFromToken_colls)

lemma request_split:
  "snd (request e authorization op d) = snd (getUserFromToken e authorization d)
   \<or> (\<exists>user. snd (request e authorization op d)
         = snd (resolve e op (snd (getUserFromToken e authorization d)) user))"
  by (cases "getUserFromToken e authorization d")
     (auto simp: request_def split: sum.splits)

lemma unique_request: "unique_ids d \<Longrightarrow> unique_ids (snd (request e authorization op d))"
  using request_split [of e authorization op d] unique_getUserFromToken [of d e authorization]
    unique_resolve
  by auto

lemma unique_field_resolvers:
  "unique_ids d \<Longrightarrow> unique_ids (snd (TaskList_progress t d))"
  "unique_ids d \<Longrightarrow> unique_ids (snd (TaskList_users t d))"
  "unique_ids d \<Longrightarrow> unique_ids (snd (TaskList_todos t d))"
  "unique_ids d \<Longrightarrow> unique_ids (snd (ToDo_taskList todo d))"
  by (simp_all add: unique_ids_def TaskList_progress_def TaskList_users_def
      TaskList_todos_def ToDo_taskList_def logged_def Let_def)

lemma unique_reachable: "reachable d \<Longrightarrow> unique_ids d"
proof (induction rule: reachable.induct)
  case start
  show ?case by (simp add: unique_ids_def empty_db_def)
next
  case (by_request d e authorization op)
  then show ?case by (simp add: unique_request)
qed (simp_all add: unique_field_resolvers)


lemma same_key_same_doc:
  "distinct (map key docs) \<Longrightarrow> x \<in> set docs \<Longrightarrow> y \<in> set docs \<Longrightarrow> key x = key y \<Longrightarrow> x = y"
  by (auto simp: distinct_map dest: inj_onD)

lemma in_updateOne:
  "y \<in> set (updateOne q f docs) \<Longrightarrow> y \<in> set docs \<or> (\<exists>x \<in> set docs. y = f x)"
  by (induction docs) (auto split: if_splits)

lemma members_keptI:
  assumes dist: "distinct (map tl_id (coll_TaskList d))"
    and each: "\<And>t'. t' \<in> set (coll_TaskList d') \<Longrightarrow>
        t' \<in> set (coll_TaskList d)
        \<or> (\<exists>x \<in> set (coll_TaskList d). tl_id t' = tl_id x \<and> prefix (tl_userIds x) (tl_userIds t'))
        \<or> tl_id t' \<notin> set (map tl_id (coll_TaskList d))"
  shows "members_kept d d'"
  unfolding members_kept_def list_all_iff
proof (intro ballI impI)
  fix t' t
  assume t': "t' \<in> set (coll_TaskList d')" and t: "t \<in> set (coll_TaskList d)"
    and same: "tl_id t' = tl_id t"
  from each [OF t'] show "prefix (tl_userIds t) (tl_userIds t')"
  proof (elim disjE bexE conjE)
    assume "t' \<in> set (coll_TaskList d)"
    then have "t' = t" using same_key_same_doc [OF dist _ t same] by simp
    then show ?thesis by simp
  next
    fix x assume x: "x \<in> set (coll_TaskList d)" "tl_id t' = tl_id x"
      and p: "prefix (tl_userIds x) (tl_userIds t')"
    have "tl_id x = tl_id t" using x(2) same by simp
    then have "x = t" using same_key_same_doc [OF dist x(1) t] by simp
    with p show ?thesis by simp
  next
    assume "tl_id t' \<notin> set (map tl_id (coll_TaskList d))"
    with t same show ?thesis by auto
  qed
qed

lemma members_kept_same:
  "distinct (map tl_id (coll_TaskList d)) \<Longrightarrow> coll_TaskList d' = coll_TaskList d \<Longrightarrow> members_kept d d'"
  by (rule members_keptI) auto

lemma members_kept_updateOne:
  assumes "distinct (map tl_id (coll_TaskList d))"
    and "coll_TaskList d' = updateOne q f (coll_TaskList d)"
    and "\<And>x. tl_id (f x) = tl_id x \<and> prefix (tl_userIds x) (tl_userIds (f x))"
  shows "members_kept d d'"
proof (rule members_keptI [OF assms(1)])
  fix t' assume "t' \<in> set (coll_TaskList d')"
  then have "t' \<in> set (coll_TaskList d) \<or> (\<exists>x \<in> set (coll_TaskList d). t' = f x)"
    unfolding assms(2) by (rule in_updateOne)
  then show "t' \<in> set (coll_TaskList d)
        \<or> (\<exists>x \<in> set (coll_TaskList d). tl_id t' = tl_id x \<and> prefix (tl_userIds x) (tl_userIds t'))
        \<or> tl_id t' \<notin> set (map tl_id (coll_TaskList d))"
    using assms(3) by auto
qed

lemma members_kept_remove:
  "distinct (map tl_id (coll_TaskList d)) \<Longrightarrow> coll_TaskList d' = remove q (coll_TaskList d)
   \<Longrightarrow> members_kept d d'"
  by (rule members_keptI) (auto simp: remove_def)

lemma members_kept_insertOne:
  assumes "distinct (map tl_id (coll_TaskList d))"
    and "insertOne tl_id doc (coll_TaskList d) = Inr ts"
    and "coll_TaskList d' = ts"
  shows "members_kept d d'"
proof (rule members_keptI [OF assms(1)])
  have new: "tl_id doc \<notin> set (map tl_id (coll_TaskList d))"
    and ts: "ts = coll_TaskList d @ [doc]"
    using assms(2) by (auto simp: insertOne_def split: if_splits)
  fix t' assume "t' \<in> set (coll_TaskList d')"
  then have "t' \<in> set (coll_TaskList d) \<or> t' = doc" by (auto simp: assms(3) ts)
  then show "t' \<in> set (coll_TaskList d)
        \<or> (\<exists>x \<in> set (coll_TaskList d). tl_id t' = tl_id x \<and> prefix (tl_userIds x) (tl_userIds t'))
        \<or> tl_id t' \<notin> set (map tl_id (coll_TaskList d))"
    using new by blast
qed

lemma updateTaskList_colls:
  "coll_TaskList (snd (updateTaskList ident title d user)) = coll_TaskList d
   \<or> (\<exists>i. coll_TaskList (snd (updateTaskList ident title d user))
         = updateOne (\<lambda>t. tl_id t = i) (\<lambda>t. t\<lparr>tl_title := title\<rparr>) (coll_TaskList d))"
  by (auto simp: updateTaskList_def logged_def Let_def split: option.splits sum.splits)

lemma addUserToTaskList_colls:
  "coll_TaskList (snd (addUserToTaskList taskListId userId d user)) = coll_TaskList d
   \<or> (\<exists>i ui. coll_TaskList (snd (addUserToTaskList taskListId userId d user))
         = updateOne (\<lambda>t. tl_id t = i) (\<lambda>t. t\<lparr>tl_userIds := tl_userIds t @ [ui]\<rparr>)
             (coll_TaskList d))"
  by (auto simp: addUserToTaskList_def logged_def Let_def split: option.splits sum.splits)

lemma deleteTaskList_colls:
  "coll_TaskList (snd (deleteTaskList ident d user)) = coll_TaskList d
   \<or> (\<exists>i. coll_TaskList (snd (deleteTaskList ident d user))
         = remove (\<lambda>t. tl_id t = i) (coll_TaskList d))"
  by (auto simp: deleteTaskList_def logged_def split: option.splits sum.splits)

lemma members_kept_resolve:
  assumes u: "distinct (map tl_id (coll_TaskList d))"
  shows "members_kept d (snd (resolve e op d user))"
proof (cases op)
  case Q_myTaskLists
  then show ?thesis
    by (auto simp: snd_returning myTaskLists_def logged_def split: option.splits
        intro!: members_kept_same [OF u])
next
  case (Q_getTaskList ident)
  then show ?thesis
    by (auto simp: snd_returning getTaskList_def logged_def split: option.splits sum.splits
        intro!: members_kept_same [OF u])
next
  case (M_signUp input)
  then show ?thesis
    by (auto simp: snd_returning signUp_def logged_def Let_def split: sum.splits
        intro!: members_kept_same [OF u])
next
  case (M_signIn input)
  then show ?thesis
    by (auto simp: snd_returning signIn_def logged_def Let_def split: option.splits
        intro!: members_kept_same [OF u])
next
  case (M_createTaskList title)
  show ?thesis
  proof (cases user)
    case None
    with M_createTaskList show ?thesis
      by (simp add: snd_returning createTaskList_def members_kept_same [OF u])
  next
    case (Some usr)
    let ?new = "\<lparr>tl_id = freshId e, tl_title = title, tl_createdAt = isoDate e,
                 tl_userIds = [u_id usr]\<rparr>"
    show ?thesis
    proof (cases "insertOne tl_id ?new (coll_TaskList d)")
      case (Inl err)
      with M_createTaskList Some show ?thesis
        by (simp add: snd_returning createTaskList_def Let_def logged_def members_kept_same [OF u])
    next
      case (Inr ts)
      with M_createTaskList Some show ?thesis
        by (simp add: snd_returning createTaskList_def Let_def logged_def
            members_kept_insertOne [OF u Inr])
    qed
  qed
next
  case (M_updateTaskList ident title)
  from updateTaskList_colls [of ident title d user]
  have "members_kept d (snd (updateTaskList ident title d user))"
    by (elim disjE exE) (auto intro: members_kept_same [OF u] members_kept_updateOne [OF u])
  with M_updateTaskList show ?thesis by (simp add: snd_returning)
next
  case (M_deleteTaskList ident)
  from deleteTaskList_colls [of ident d user]
  have "members_kept d (snd (deleteTaskList ident d user))"
    by (elim disjE exE) (auto intro: members_kept_same [OF u] members_kept_remove [OF u])
  with M_deleteTaskList show ?thesis by (simp add: snd_returning)
next
  case (M_addUserToTaskList taskListId userId)
  from addUserToTaskList_colls [of taskListId userId d user]
  have "members_kept d (snd (addUserToTaskList taskListId userId d user))"
    by (elim disjE exE) (auto intro: members_kept_same [OF u] members_kept_updateOne [OF u])
  with M_addUserToTaskList show ?thesis by (simp add: snd_returning)
next
  case (M_createToDo content taskListId)
  then show ?thesis
    by (auto simp: snd_returning createToDo_def logged_def Let_def
        split: option.splits sum.splits intro!: members_kept_same [OF u])
next
  case (M_updateToDo data)
  then show ?thesis
    by (auto simp: snd_returning updateToDo_def logged_def Let_def
        split: option.splits sum.splits intro!: members_kept_same [OF u])
next
  case (M_deleteToDo ident)
  then show ?thesis
    by (auto simp: snd_returning deleteToDo_def logged_def
        split: option.splits sum.splits intro!: members_kept_same [OF u])
qed

lemma members_kept_cong:
  "coll_TaskList d1 = coll_TaskList d \<Longrightarrow> members_kept d1 d' \<Longrightarrow> members_kept d d'"
  by (simp add: members_kept_def)

lemma members_kept_request:
  assumes u: "distinct (map tl_id (coll_TaskList d))"
  shows "members_kept d (snd (request e authorization op d))"
proof -
  let ?d1 = "snd (getUserFromToken e authorization d)"
  have c: "coll_TaskList ?d1 = coll_TaskList d" by (simp add: getUserFromToken_colls)
  have u1: "distinct (map tl_id (coll_TaskList ?d1))" using u by (simp add: c)
  from request_split [of e authorization op d] show ?thesis
  proof (elim disjE exE)
    assume "snd (request e authorization op d) = ?d1"
    then show ?thesis using members_kept_same [OF u c] by simp
  next
    fix user assume "snd (request e authorization op d) = snd (resolve e op ?d1 user)"
    then show ?thesis
      using members_kept_cong [OF c members_kept_resolve [OF u1, of e op user]] by simp
  qed
qed


section \<open>Properties\<close>

subsection \<open>The access policy\<close>

text \<open>
  C1. Each of the nine protected operations, called with no identity (\<open>user\<close> is
  \<open>None\<close>), fails with the authentication error and returns the store as it received
  it, the record of accesses included: the check comes before any read or write.
\<close>

theorem protected_operations_require_identity:
  "myTaskLists d None = (Inl AuthenticationError, d)
   \<and> getTaskList ident d None = (Inl AuthenticationError, d)
   \<and> createTaskList e title d None = (Inl AuthenticationError, d)
   \<and> updateTaskList ident title d None = (Inl AuthenticationError, d)
   \<and> addUserToTaskList taskListId userId d None = (Inl AuthenticationError, d)
   \<and> deleteTaskList ident d None = (Inl AuthenticationError, d)
   \<and> createToDo e content taskListId d None = (Inl AuthenticationError, d)
   \<and> updateToDo data d None = (Inl AuthenticationError, d)
   \<and> deleteToDo ident d None = (Inl AuthenticationError, d)"
  by (simp add: myTaskLists_def getTaskList_def createTaskList_def updateTaskList_def
      addUserToTaskList_def deleteTaskList_def createToDo_def updateToDo_def deleteToDo_def)


subsection \<open>The field resolvers\<close>

text \<open>
  C2, as stated, does not hold: the resolver computes in doubles, and the value it returns
  is not always the quotient. For a list with three to-dos of which one is completed the
  quotient is \<open>100 / 3\<close>, which is no double; the resolver returns the double next to it,
  33.333333333333336.
\<close>

theorem progress_counterexample:
  "length (filter (\<lambda>x. td_taskListId x = tl_id groceries) (coll_ToDo thirds_db)) = 3
   \<and> length (filter (\<lambda>x. td_taskListId x = tl_id groceries \<and> td_isCompleted x)
         (coll_ToDo thirds_db)) = 1
   \<and> fst (TaskList_progress groceries thirds_db)
       = Finite (4691249611844267 / 140737488355328)
   \<and> fst (TaskList_progress groceries thirds_db) \<noteq> Finite (100 * 1 / 3)"
proof -
  have v: "fst (TaskList_progress groceries thirds_db)
      = Finite (4691249611844267 / 140737488355328)"
    by (simp add: TaskList_progress_value thirds_lengths third_double)
  have "(4691249611844267 / 140737488355328 :: rat) \<noteq> 100 * 1 / 3" by simp
  then have "fst (TaskList_progress groceries thirds_db) \<noteq> Finite (100 * 1 / 3)"
    by (simp add: v)
  then show ?thesis using v thirds_lengths by (intro conjI) simp_all
qed

text \<open>
  C2, amended. \<open>TaskList.progress\<close> is 0 for a list that no ToDo references. Otherwise
  it is the double that the division of 100 times the number of completed ToDos of the
  list by the number of its ToDos evaluates to; no step rounds it to an integer. The value
  is a finite number between 0 and 100 that differs from the quotient by at most the
  quotient times \<open>2 ^ - 53\<close>, and it is 25 for four to-dos of which one is completed.
\<close>

theorem progress_rounded_quotient:
  "(length (filter (\<lambda>x. td_taskListId x = tl_id t) (coll_ToDo d)) = 0
      \<longrightarrow> fst (TaskList_progress t d) = Finite 0)
   \<and> (length (filter (\<lambda>x. td_taskListId x = tl_id t) (coll_ToDo d)) \<noteq> 0
      \<longrightarrow> fst (TaskList_progress t d) =
          divide_double
            (100 * length (filter (\<lambda>x. td_taskListId x = tl_id t \<and> td_isCompleted x) (coll_ToDo d)))
            (length (filter (\<lambda>x. td_taskListId x = tl_id t) (coll_ToDo d))))
   \<and> (\<exists>x. fst (TaskList_progress t d) = Finite x \<and> 0 \<le> x \<and> x \<le> 100
         \<and> \<bar>x - 100 * of_nat (length (filter (\<lambda>x. td_taskListId x = tl_id t \<and> td_isCompleted x)
                                    (coll_ToDo d)))
                 / of_nat (length (filter (\<lambda>x. td_taskListId x = tl_id t) (coll_ToDo d)))\<bar>
             \<le> 100 * of_nat (length (filter (\<lambda>x. td_taskListId x = tl_id t \<and> td_isCompleted x)
                                    (coll_ToDo d)))
                 / of_nat (length (filter (\<lambda>x. td_taskListId x = tl_id t) (coll_ToDo d)))
                 / 2 ^ 53)
   \<and> (length (filter (\<lambda>x. td_taskListId x = tl_id t) (coll_ToDo d)) = 4
      \<and> length (filter (\<lambda>x. td_taskListId x = tl_id t \<and> td_isCompleted x) (coll_ToDo d)) = 1
      \<longrightarrow> fst (TaskList_progress t d) = Finite 25)"
proof -
  let ?n = "length (filter (\<lambda>x. td_taskListId x = tl_id t) (coll_ToDo d))"
  let ?c = "length (filter (\<lambda>x. td_taskListId x = tl_id t \<and> td_isCompleted x) (coll_ToDo d))"
  note val = TaskList_progress_value [of t d]
  have le: "?c \<le> ?n"
    using length_filter_le [of td_isCompleted "filter (\<lambda>x. td_taskListId x = tl_id t) (coll_ToDo d)"]
    by (simp add: conj_commute)
  have zero: "?n = 0 \<longrightarrow> fst (TaskList_progress t d) = Finite 0"
    by (simp add: val)
  have quot: "?n \<noteq> 0 \<longrightarrow> fst (TaskList_progress t d) = divide_double (100 * ?c) ?n"
    by (simp add: val)
  have range: "\<exists>x. fst (TaskList_progress t d) = Finite x \<and> 0 \<le> x \<and> x \<le> 100
      \<and> \<bar>x - 100 * of_nat ?c / of_nat ?n\<bar> \<le> 100 * of_nat ?c / of_nat ?n / 2 ^ 53"
  proof (cases "?n = 0 \<or> ?c = 0")
    case True
    then have "fst (TaskList_progress t d) = Finite 0"
      by (auto simp: val divide_double_def)
    moreover have "\<bar>(0 :: rat) - 100 * of_nat ?c / of_nat ?n\<bar> \<le> 100 * of_nat ?c / of_nat ?n / 2 ^ 53"
      using True by auto
    ultimately show ?thesis by simp
  next
    case False
    then have n: "0 < ?n" and c: "0 < 100 * ?c" by simp_all
    have small: "(100 :: nat) < 2 ^ 52" by simp
    have bound: "100 * ?c \<le> 100 * ?n" using le by simp
    from divide_double_value [OF c n, of 100] obtain x where
      x: "divide_double (100 * ?c) ?n = Finite x
          \<and> \<bar>x - of_nat (100 * ?c) / of_nat ?n\<bar> \<le> of_nat (100 * ?c) / of_nat ?n / 2 ^ 53
          \<and> 0 \<le> x
          \<and> ((100 :: nat) < 2 ^ 52 \<and> 100 * ?c \<le> 100 * ?n \<longrightarrow> x \<le> of_nat 100)" ..
    have hi: "x \<le> 100" using x small bound by simp
    have v: "fst (TaskList_progress t d) = Finite x" using n x by (simp add: val)
    have err: "\<bar>x - 100 * of_nat ?c / of_nat ?n\<bar> \<le> 100 * of_nat ?c / of_nat ?n / 2 ^ 53"
      using x by simp
    have lo: "0 \<le> x" using x by simp
    show ?thesis by (intro exI [of _ x] conjI v lo hi err)
  qed
  have quarter: "?n = 4 \<and> ?c = 1 \<longrightarrow> fst (TaskList_progress t d) = Finite 25"
    by (simp add: val quarter_double)
  show ?thesis by (intro conjI zero quot range quarter)
qed

text \<open>
  On the small store: the groceries list has four to-dos, one completed, and its progress
  is 25; a list that nothing references has progress 0.
\<close>

theorem progress_rounded_quotient_witness:
  "length (filter (\<lambda>x. td_taskListId x = tl_id groceries) (coll_ToDo small_db)) = 4
   \<and> length (filter (\<lambda>x. td_taskListId x = tl_id groceries \<and> td_isCompleted x)
         (coll_ToDo small_db)) = 1
   \<and> fst (TaskList_progress groceries small_db) = Finite 25
   \<and> length (filter (\<lambda>x. td_taskListId x = tl_id groceries) (coll_ToDo small_db)) \<noteq> 0
   \<and> fst (TaskList_progress groceries small_db)
       = divide_double
           (100 * length (filter (\<lambda>x. td_taskListId x = tl_id groceries \<and> td_isCompleted x)
                            (coll_ToDo small_db)))
           (length (filter (\<lambda>x. td_taskListId x = tl_id groceries) (coll_ToDo small_db)))
   \<and> length (filter (\<lambda>x. td_taskListId x = tl_id (groceries\<lparr>tl_id := bob_id\<rparr>))
         (coll_ToDo small_db)) = 0
   \<and> fst (TaskList_progress (groceries\<lparr>tl_id := bob_id\<rparr>) small_db) = Finite 0"
proof -
  have a: "length (filter (\<lambda>x. td_taskListId x = tl_id groceries) (coll_ToDo small_db)) = 4"
    by (simp add: small_db_def groceries_def item_def)
  have b: "length (filter (\<lambda>x. td_taskListId x = tl_id groceries \<and> td_isCompleted x)
         (coll_ToDo small_db)) = 1"
    by (simp add: small_db_def groceries_def item_def)
  have c: "length (filter (\<lambda>x. td_taskListId x = tl_id (groceries\<lparr>tl_id := bob_id\<rparr>))
         (coll_ToDo small_db)) = 0"
    by (simp add: small_db_def groceries_def item_def groceries_id_def bob_id_def)
  have some: "length (filter (\<lambda>x. td_taskListId x = tl_id groceries) (coll_ToDo small_db)) \<noteq> 0"
    by (simp add: a)
  note none = progress_rounded_quotient [THEN conjunct1, rule_format]
  note ratio = progress_rounded_quotient [THEN conjunct2, THEN conjunct1, rule_format]
  note quarter = progress_rounded_quotient [THEN conjunct2, THEN conjunct2, THEN conjunct2,
      rule_format]
  show ?thesis
    by (intro conjI a b c quarter [OF conjI [OF a b]] none [OF c] some ratio [OF some])
qed

subsection \<open>Adding a member\<close>

text \<open>
  C3, as stated, does not hold for every identifier the API accepts (any string). A list
  identifier that \<open>ObjectId\<close> rejects makes the call throw, where the claim has \<open>null\<close>
  since no list has that identifier. And the membership test compares the \<open>toString\<close> of
  each member with the string received: bob's identifier written in upper case is not
  found among the members, so the same call succeeds twice and bob is a member twice.
\<close>

theorem addUserToTaskList_counterexample:
  "groceries_id \<in> set (map tl_id (coll_TaskList small_db))
   \<and> fst (addUserToTaskList ''groceries'' ''5f0000000000000000000002'' small_db (Some alice))
       = Inl InvalidObjectId
   \<and> fst (addUserToTaskList ''5f00000000000000000000a1'' ''5F0000000000000000000002'' small_db
            (Some alice))
       = Inr (Some (groceries\<lparr>tl_userIds := [alice_id, bob_id]\<rparr>))
   \<and> fst (addUserToTaskList ''5f00000000000000000000a1'' ''5F0000000000000000000002''
            (snd (addUserToTaskList ''5f00000000000000000000a1'' ''5F0000000000000000000002''
                    small_db (Some alice)))
            (Some alice))
       = Inr (Some (groceries\<lparr>tl_userIds := [alice_id, bob_id, bob_id]\<rparr>))"
  by (simp add: addUserToTaskList_def ObjectId_short ObjectId_lower24 ObjectId_BOB Let_def
      findOne_def logged_def small_db_def groceries_def alice_id_def bob_id_def)

text \<open>
  C3, amended. A list identifier that \<open>ObjectId\<close> rejects makes the call fail with the
  driver's error before any access. For one it accepts: when no list has that identifier
  the result is \<open>null\<close>; when the list exists and the user identifier is in the form the
  API prints (\<open>canonical\<close>), the call fails with the conflict error if the user is a member
  already, and otherwise appends the user to the stored list and returns the updated
  list, after which the same call (by any user) fails with the conflict error.
\<close>

theorem addUserToTaskList_cases:
  "(\<forall>err. ObjectId taskListId = Inl err \<longrightarrow>
       addUserToTaskList taskListId userId d (Some u) = (Inl err, d))
   \<and> (\<forall>i. ObjectId taskListId = Inr i \<and> i \<notin> set (map tl_id (coll_TaskList d)) \<longrightarrow>
         addUserToTaskList taskListId userId d (Some u) = (Inr None, logged (Read ''TaskList'') d))
   \<and> (\<forall>i t ui. ObjectId taskListId = Inr i
         \<and> findOne (\<lambda>t. tl_id t = i) (coll_TaskList d) = Some t
         \<and> canonical userId \<and> ObjectId userId = Inr ui \<and> ui \<in> set (tl_userIds t) \<longrightarrow>
         addUserToTaskList taskListId userId d (Some u)
           = (Inl UserAlreadyExists, logged (Read ''TaskList'') d))
   \<and> (\<forall>i t ui. ObjectId taskListId = Inr i
         \<and> findOne (\<lambda>t. tl_id t = i) (coll_TaskList d) = Some t
         \<and> canonical userId \<and> ObjectId userId = Inr ui \<and> ui \<notin> set (tl_userIds t) \<longrightarrow>
         fst (addUserToTaskList taskListId userId d (Some u))
           = Inr (Some (t\<lparr>tl_userIds := tl_userIds t @ [ui]\<rparr>))
         \<and> coll_TaskList (snd (addUserToTaskList taskListId userId d (Some u)))
           = updateOne (\<lambda>t. tl_id t = i) (\<lambda>t. t\<lparr>tl_userIds := tl_userIds t @ [ui]\<rparr>)
               (coll_TaskList d)
         \<and> fst (addUserToTaskList taskListId userId
                  (snd (addUserToTaskList taskListId userId d (Some u))) (Some u'))
           = Inl UserAlreadyExists)"
proof -
  have p3: "addUserToTaskList taskListId userId d (Some u)
           = (Inl UserAlreadyExists, logged (Read ''TaskList'') d)"
    if h: "ObjectId taskListId = Inr i
         \<and> findOne (\<lambda>t. tl_id t = i) (coll_TaskList d) = Some t
         \<and> canonical userId \<and> ObjectId userId = Inr ui \<and> ui \<in> set (tl_userIds t)"
    for i t ui
  proof -
    have "List.find (\<lambda>dbId. toString dbId = userId) (tl_userIds t) \<noteq> None"
      using canonical_find [of userId ui "tl_userIds t"] h by blast
    then show ?thesis using h addUser_conflict by blast
  qed
  have p4: "fst (addUserToTaskList taskListId userId d (Some u))
           = Inr (Some (t\<lparr>tl_userIds := tl_userIds t @ [ui]\<rparr>))
         \<and> coll_TaskList (snd (addUserToTaskList taskListId userId d (Some u)))
           = updateOne (\<lambda>t. tl_id t = i) (\<lambda>t. t\<lparr>tl_userIds := tl_userIds t @ [ui]\<rparr>)
               (coll_TaskList d)
         \<and> fst (addUserToTaskList taskListId userId
                  (snd (addUserToTaskList taskListId userId d (Some u))) (Some u'))
           = Inl UserAlreadyExists"
    if h: "ObjectId taskListId = Inr i
         \<and> findOne (\<lambda>t. tl_id t = i) (coll_TaskList d) = Some t
         \<and> canonical userId \<and> ObjectId userId = Inr ui \<and> ui \<notin> set (tl_userIds t)"
    for i t ui
  proof -
    let ?f = "\<lambda>t. t\<lparr>tl_userIds := tl_userIds t @ [ui]\<rparr>"
    let ?d' = "snd (addUserToTaskList taskListId userId d (Some u))"
    have nf: "List.find (\<lambda>dbId. toString dbId = userId) (tl_userIds t) = None"
      using canonical_find [of userId ui "tl_userIds t"] h by blast
    have call: "addUserToTaskList taskListId userId d (Some u) =
      (Inr (Some (?f t)),
       logged (Write ''TaskList'')
         ((logged (Read ''TaskList'') d)\<lparr>coll_TaskList :=
             updateOne (\<lambda>t. tl_id t = i) ?f (coll_TaskList (logged (Read ''TaskList'') d))\<rparr>))"
      using addUser_push [of taskListId i d t userId ui u] h nf by blast
    then have colls: "coll_TaskList ?d' = updateOne (\<lambda>t. tl_id t = i) ?f (coll_TaskList d)"
      by (simp add: logged_def)
    have key: "tl_id t = i" using h by (auto dest: findOne_Some_set)
    have found: "findOne (\<lambda>t. tl_id t = i) (coll_TaskList ?d') = Some (?f t)"
      unfolding colls using h key by (simp add: findOne_updateOne)
    have "ui \<in> set (tl_userIds (?f t))" by simp
    then have dup: "List.find (\<lambda>dbId. toString dbId = userId) (tl_userIds (?f t)) \<noteq> None"
      using canonical_find [of userId ui "tl_userIds (?f t)"] h by blast
    have second: "addUserToTaskList taskListId userId ?d' (Some u')
        = (Inl UserAlreadyExists, logged (Read ''TaskList'') ?d')"
      using addUser_conflict [of taskListId i ?d' "?f t" userId u'] h found dup by blast
    show ?thesis using call colls second by simp
  qed
  show ?thesis
    using addUser_malformed [of taskListId _ userId d u] addUser_missing [of taskListId _ d userId u]
      p3 p4
    by (intro conjI allI impI) blast+
qed

text \<open>The four cases on the small store, and the second of two equal calls.\<close>

theorem addUserToTaskList_cases_witness:
  "ObjectId ''groceries'' = Inl InvalidObjectId
   \<and> addUserToTaskList ''groceries'' ''5f0000000000000000000002'' small_db (Some alice)
       = (Inl InvalidObjectId, small_db)
   \<and> ObjectId ''5f0000000000000000000002'' = Inr bob_id
   \<and> bob_id \<notin> set (map tl_id (coll_TaskList small_db))
   \<and> addUserToTaskList ''5f0000000000000000000002'' ''5f0000000000000000000002'' small_db
            (Some alice) = (Inr None, logged (Read ''TaskList'') small_db)
   \<and> canonical ''5f0000000000000000000001''
   \<and> alice_id \<in> set (tl_userIds groceries)
   \<and> addUserToTaskList ''5f00000000000000000000a1'' ''5f0000000000000000000001'' small_db
            (Some bob) = (Inl UserAlreadyExists, logged (Read ''TaskList'') small_db)
   \<and> canonical ''5f0000000000000000000002''
   \<and> bob_id \<notin> set (tl_userIds groceries)
   \<and> fst (addUserToTaskList ''5f00000000000000000000a1'' ''5f0000000000000000000002'' small_db
            (Some alice)) = Inr (Some (groceries\<lparr>tl_userIds := tl_userIds groceries @ [bob_id]\<rparr>))
   \<and> fst (addUserToTaskList ''5f00000000000000000000a1'' ''5f0000000000000000000002''
            (snd (addUserToTaskList ''5f00000000000000000000a1'' ''5f0000000000000000000002''
                    small_db (Some alice)))
            (Some alice)) = Inl UserAlreadyExists"
proof -
  have ca: "canonical ''5f0000000000000000000001''"
    by (simp add: canonical_def ObjectId_alice alice_id_def)
  have cb: "canonical ''5f0000000000000000000002''"
    by (simp add: canonical_def ObjectId_bob bob_id_def)
  have nb: "bob_id \<notin> set (map tl_id (coll_TaskList small_db))"
    by (simp add: small_db_def groceries_def groceries_id_def bob_id_def)
  have am: "alice_id \<in> set (tl_userIds groceries)" by (simp add: groceries_def)
  have bm: "bob_id \<notin> set (tl_userIds groceries)"
    by (simp add: groceries_def alice_id_def bob_id_def)
  note malformed = addUserToTaskList_cases [THEN conjunct1, rule_format]
  note missing = addUserToTaskList_cases [THEN conjunct2, THEN conjunct1, rule_format]
  note conflict = addUserToTaskList_cases [THEN conjunct2, THEN conjunct2, THEN conjunct1, rule_format]
  note push = addUserToTaskList_cases [THEN conjunct2, THEN conjunct2, THEN conjunct2, rule_format]
  have 1: "addUserToTaskList ''groceries'' ''5f0000000000000000000002'' small_db (Some alice)
       = (Inl InvalidObjectId, small_db)"
    by (rule malformed [OF ObjectId_short])
  have 2: "addUserToTaskList ''5f0000000000000000000002'' ''5f0000000000000000000002'' small_db
            (Some alice) = (Inr None, logged (Read ''TaskList'') small_db)"
    by (rule missing [OF conjI [OF ObjectId_bob nb]])
  have 3: "addUserToTaskList ''5f00000000000000000000a1'' ''5f0000000000000000000001'' small_db
            (Some bob) = (Inl UserAlreadyExists, logged (Read ''TaskList'') small_db)"
    by (rule conflict [OF conjI [OF ObjectId_lower24 conjI [OF findOne_groceries
            conjI [OF ca conjI [OF ObjectId_alice am]]]]])
  have 4: "fst (addUserToTaskList ''5f00000000000000000000a1'' ''5f0000000000000000000002'' small_db
            (Some alice)) = Inr (Some (groceries\<lparr>tl_userIds := tl_userIds groceries @ [bob_id]\<rparr>))
     \<and> coll_TaskList (snd (addUserToTaskList ''5f00000000000000000000a1''
            ''5f0000000000000000000002'' small_db (Some alice)))
           = updateOne (\<lambda>t. tl_id t = groceries_id)
               (\<lambda>t. t\<lparr>tl_userIds := tl_userIds t @ [bob_id]\<rparr>) (coll_TaskList small_db)
     \<and> fst (addUserToTaskList ''5f00000000000000000000a1'' ''5f0000000000000000000002''
            (snd (addUserToTaskList ''5f00000000000000000000a1'' ''5f0000000000000000000002''
                    small_db (Some alice)))
            (Some alice)) = Inl UserAlreadyExists"
    by (rule push [OF conjI [OF ObjectId_lower24 conjI [OF findOne_groceries
            conjI [OF cb conjI [OF ObjectId_bob bm]]]]])
  show ?thesis
    by (intro conjI ObjectId_short ObjectId_bob 1 2 3 ca cb nb am bm
        conjunct1 [OF 4] conjunct2 [OF conjunct2 [OF 4]])
qed

subsection \<open>Queries and sign-in\<close>

text \<open>
  C4. For an authenticated user (any user) and an identifier that denotes a stored
  TaskList, \<open>getTaskList\<close> returns that list and only reads the store; nothing is asked
  about the user's membership.
\<close>

theorem getTaskList_ignores_membership:
  assumes "distinct (map tl_id (coll_TaskList d))"
    and "t \<in> set (coll_TaskList d)"
    and "ObjectId ident = Inr (tl_id t)"
  shows "getTaskList ident d (Some u) = (Inr (Some t), logged (Read ''TaskList'') d)"
  using assms by (simp add: getTaskList_def findOne_key)

text \<open>Bob is no member of the groceries list and reads it.\<close>

theorem getTaskList_ignores_membership_witness:
  "bob_id \<notin> set (tl_userIds groceries)
   \<and> getTaskList ''5f00000000000000000000a1'' small_db (Some bob)
       = (Inr (Some groceries), logged (Read ''TaskList'') small_db)"
proof -
  have a: "distinct (map tl_id (coll_TaskList small_db))" by (simp add: sample_defs)
  have b: "groceries \<in> set (coll_TaskList small_db)" by (simp add: sample_defs)
  have c: "ObjectId ''5f00000000000000000000a1'' = Inr (tl_id groceries)"
    by (simp add: ObjectId_lower24 groceries_def)
  have d: "bob_id \<notin> set (tl_userIds groceries)" by (simp add: sample_defs)
  show ?thesis by (intro conjI d getTaskList_ignores_membership [OF a b c])
qed

text \<open>
  C5. \<open>signIn\<close> fails with the invalid-credentials error exactly when no user has the
  email, or the user found by the email has a stored hash that the password does not
  compare to; it fails in no other way. When it succeeds it returns the user found and a
  token signed with the server's secret whose payload's \<open>id\<close> is that user's identifier.
\<close>

theorem signIn_outcome:
  "(fst (signIn e input d) = Inl InvalidCredentials \<longleftrightarrow>
      (findOne (\<lambda>u. u_email u = si_email input) (coll_Users d) = None
       \<or> (\<exists>user. findOne (\<lambda>u. u_email u = si_email input) (coll_Users d) = Some user
             \<and> \<not> compareSync (si_password input) (u_password user))))
   \<and> (\<forall>r. fst (signIn e input d) = Inr r \<longrightarrow>
         findOne (\<lambda>u. u_email u = si_email input) (coll_Users d) = Some (au_user r)
         \<and> compareSync (si_password input) (u_password (au_user r))
         \<and> (\<exists>payload. au_token r = Jwt payload (JWT_SECRET e)
               \<and> jwt_id payload = Some (toString (u_id (au_user r)))))
   \<and> (\<forall>err. fst (signIn e input d) = Inl err \<longrightarrow> err = InvalidCredentials)"
  by (auto simp: signIn_def Let_def getToken_def jwt_sign_def split: option.splits)

text \<open>Alice with her password, alice with bob's, and an email nobody has.\<close>

theorem signIn_outcome_witness:
  "findOne (\<lambda>u. u_email u = ''alice@example.org'') (coll_Users small_db) = Some alice
   \<and> compareSync ''wonderland'' (u_password alice)
   \<and> fst (signIn env0 \<lparr>si_email = ''alice@example.org'', si_password = ''wonderland''\<rparr> small_db)
       = Inr \<lparr>au_user = alice, au_token = getToken env0 alice\<rparr>
   \<and> (\<exists>payload. getToken env0 alice = Jwt payload (JWT_SECRET env0)
         \<and> jwt_id payload = Some (toString alice_id))
   \<and> \<not> compareSync ''builder'' (u_password alice)
   \<and> fst (signIn env0 \<lparr>si_email = ''alice@example.org'', si_password = ''builder''\<rparr> small_db)
       = Inl InvalidCredentials
   \<and> findOne (\<lambda>u. u_email u = ''carol@example.org'') (coll_Users small_db) = None
   \<and> fst (signIn env0 \<lparr>si_email = ''carol@example.org'', si_password = ''wonderland''\<rparr> small_db)
       = Inl InvalidCredentials"
proof -
  let ?good = "\<lparr>si_email = ''alice@example.org'', si_password = ''wonderland''\<rparr>"
  let ?bad = "\<lparr>si_email = ''alice@example.org'', si_password = ''builder''\<rparr>"
  let ?unknown = "\<lparr>si_email = ''carol@example.org'', si_password = ''wonderland''\<rparr>"
  have fa: "findOne (\<lambda>u. u_email u = ''alice@example.org'') (coll_Users small_db) = Some alice"
    by (simp add: findOne_def small_db_def alice_def)
  have fc: "findOne (\<lambda>u. u_email u = ''carol@example.org'') (coll_Users small_db) = None"
    by (simp add: findOne_def small_db_def alice_def bob_def)
  have ok: "compareSync ''wonderland'' (u_password alice)"
    by (simp add: compareSync_def alice_def)
  have no: "\<not> compareSync ''builder'' (u_password alice)"
    by (simp add: compareSync_def alice_def)
  have good: "fst (signIn env0 ?good small_db) = Inr \<lparr>au_user = alice, au_token = getToken env0 alice\<rparr>"
    using fa ok by (simp add: signIn_def)
  have tok: "\<exists>payload. au_token \<lparr>au_user = alice, au_token = getToken env0 alice\<rparr>
        = Jwt payload (JWT_SECRET env0)
      \<and> jwt_id payload = Some (toString (u_id (au_user \<lparr>au_user = alice, au_token = getToken env0 alice\<rparr>)))"
    using signIn_outcome [of env0 ?good small_db, THEN conjunct2, THEN conjunct1, rule_format, OF good]
    by (elim conjE)
  then have tok': "\<exists>payload. getToken env0 alice = Jwt payload (JWT_SECRET env0)
         \<and> jwt_id payload = Some (toString alice_id)"
    by (simp add: alice_def)
  have bad: "fst (signIn env0 ?bad small_db) = Inl InvalidCredentials"
  proof (rule signIn_outcome [of env0 ?bad small_db, THEN conjunct1, THEN iffD2])
    have "findOne (\<lambda>u. u_email u = si_email ?bad) (coll_Users small_db) = Some alice
        \<and> \<not> compareSync (si_password ?bad) (u_password alice)"
      using fa no by simp
    then show "findOne (\<lambda>u. u_email u = si_email ?bad) (coll_Users small_db) = None
        \<or> (\<exists>user. findOne (\<lambda>u. u_email u = si_email ?bad) (coll_Users small_db) = Some user
              \<and> \<not> compareSync (si_password ?bad) (u_password user))"
      by (intro disjI2 exI)
  qed
  have unknown: "fst (signIn env0 ?unknown small_db) = Inl InvalidCredentials"
  proof (rule signIn_outcome [of env0 ?unknown small_db, THEN conjunct1, THEN iffD2])
    have "findOne (\<lambda>u. u_email u = si_email ?unknown) (coll_Users small_db) = None"
      using fc by simp
    then show "findOne (\<lambda>u. u_email u = si_email ?unknown) (coll_Users small_db) = None
        \<or> (\<exists>user. findOne (\<lambda>u. u_email u = si_email ?unknown) (coll_Users small_db) = Some user
              \<and> \<not> compareSync (si_password ?unknown) (u_password user))"
      by (rule disjI1)
  qed
  show ?thesis by (intro conjI fa fc ok no good tok' bad unknown)
qed

text \<open>
  C6, as stated, does not hold of the response. The schema's \<open>User\<close> type has no field
  for the password, so the response to \<open>signUp\<close> carries the user's \<open>id\<close>, \<open>name\<close>,
  \<open>email\<close> and \<open>avatar\<close> and the token, and not the hash: carol signing up with one
  password or with another gets the same response, while the hashes stored differ.
\<close>

theorem signUp_response_counterexample:
  "signUp_response env0 carol_input small_db
     = Inr \<lparr>p_user = \<lparr>p_id = ''5f00000000000000000000c1'', p_name = ''Carol'',
                       p_email = ''carol@example.org'', p_avatar = None\<rparr>,
            p_token = getToken env0 carol\<rparr>
   \<and> signUp_response env0 (carol_input\<lparr>su_password := ''jabberwocky''\<rparr>) small_db
       = signUp_response env0 carol_input small_db
   \<and> u_password (last (coll_Users (snd (signUp env0 carol_input small_db))))
       = Bcrypt ''salt-c'' ''looking-glass''
   \<and> u_password (last (coll_Users (snd (signUp env0 (carol_input\<lparr>su_password := ''jabberwocky''\<rparr>)
         small_db))))
       = Bcrypt ''salt-c'' ''jabberwocky''"
  by (simp add: signUp_response_def signUp_def insertOne_def hashSync_def Let_def logged_def
      AuthUser_payload_def User_payload_def User_id_def getToken_def
      env0_def carol_input_def carol_def small_db_def alice_def bob_def alice_id_def bob_id_def)

text \<open>
  C6, amended. \<open>signUp\<close> succeeds when the generated identifier is new. The object its
  resolver returns as \<open>user\<close> is the record it inserted, the last of the collection
  afterwards, with the \<open>password\<close> field holding the hash computed from the input, as
  stored. The response built from that object has the fields of the schema's \<open>User\<close>
  type and the token; it does not depend on the password.
\<close>

theorem signUp_returns_record_not_response:
  "(freshId e \<notin> set (map u_id (coll_Users d)) \<longrightarrow> (\<exists>r. fst (signUp e input d) = Inr r))
   \<and> (\<forall>r. fst (signUp e input d) = Inr r \<longrightarrow>
         coll_Users (snd (signUp e input d)) = coll_Users d @ [au_user r]
         \<and> u_password (au_user r) = hashSync (su_password input) (freshSalt e)
         \<and> signUp_response e input d
             = Inr \<lparr>p_user = \<lparr>p_id = toString (freshId e), p_name = su_name input,
                               p_email = su_email input, p_avatar = su_avatar input\<rparr>,
                    p_token = getToken e (au_user r)\<rparr>)
   \<and> signUp_response e (input\<lparr>su_password := pw\<rparr>) d = signUp_response e input d"
  by (auto simp: signUp_response_def signUp_def Let_def insertOne_def logged_def
      AuthUser_payload_def User_payload_def User_id_def getToken_def)

text \<open>Carol signs up on the small store.\<close>

theorem signUp_returns_record_not_response_witness:
  "freshId env0 \<notin> set (map u_id (coll_Users small_db))
   \<and> fst (signUp env0 carol_input small_db)
       = Inr \<lparr>au_user = carol, au_token = getToken env0 carol\<rparr>
   \<and> coll_Users (snd (signUp env0 carol_input small_db)) = coll_Users small_db @ [carol]
   \<and> u_password carol = hashSync (su_password carol_input) (freshSalt env0)
   \<and> signUp_response env0 carol_input small_db
       = Inr \<lparr>p_user = \<lparr>p_id = toString (freshId env0), p_name = su_name carol_input,
                         p_email = su_email carol_input, p_avatar = su_avatar carol_input\<rparr>,
              p_token = getToken env0 carol\<rparr>"
proof -
  let ?r = "\<lparr>au_user = carol, au_token = getToken env0 carol\<rparr>"
  have fresh: "freshId env0 \<notin> set (map u_id (coll_Users small_db))"
    by (simp add: env0_def small_db_def alice_def bob_def alice_id_def bob_id_def)
  have r: "fst (signUp env0 carol_input small_db) = Inr ?r"
    using fresh
    by (simp add: signUp_def insertOne_def hashSync_def env0_def carol_input_def carol_def Let_def)
  note returned = signUp_returns_record_not_response [of env0 small_db carol_input,
      THEN conjunct2, THEN conjunct1, rule_format, OF r]
  have stored: "coll_Users (snd (signUp env0 carol_input small_db)) = coll_Users small_db @ [carol]"
    using returned [THEN conjunct1] by simp
  have hash: "u_password carol = hashSync (su_password carol_input) (freshSalt env0)"
    using returned [THEN conjunct2, THEN conjunct1] by simp
  have response: "signUp_response env0 carol_input small_db
       = Inr \<lparr>p_user = \<lparr>p_id = toString (freshId env0), p_name = su_name carol_input,
                         p_email = su_email carol_input, p_avatar = su_avatar carol_input\<rparr>,
              p_token = getToken env0 carol\<rparr>"
    using returned [THEN conjunct2, THEN conjunct2] by simp
  show ?thesis by (intro conjI fresh r stored hash response)
qed

subsection \<open>The identity of a request\<close>

text \<open>
  C7. \<open>getUserFromToken\<close> returns no user, and throws nothing, when the header is absent
  (or the empty string) and when the token verifies and its \<open>id\<close> denotes an identifier
  that no stored user has. When a header is present and \<open>jwt.verify\<close> throws, the error is
  not caught: \<open>getUserFromToken\<close> fails with it, and so does the request, with the store
  untouched, whatever the operation. \<open>jwt.verify\<close> throws on a string that is no token,
  on a token signed with another key, and on a token whose expiry has passed.
\<close>

theorem identity_resolver:
  "getUserFromToken e None d = (Inr None, d)
   \<and> getUserFromToken e (Some (Raw [])) d = (Inr None, d)
   \<and> (\<forall>payload s i. jwt_verify t (JWT_SECRET e) (clock e) = Inr payload
         \<and> jwt_id payload = Some s \<and> ObjectId s = Inr i
         \<and> i \<notin> set (map u_id (coll_Users d)) \<longrightarrow>
         getUserFromToken e (Some t) d = (Inr None, logged (Read ''Users'') d))
   \<and> (\<forall>err. t \<noteq> Raw [] \<and> jwt_verify t (JWT_SECRET e) (clock e) = Inl err \<longrightarrow>
         getUserFromToken e (Some t) d = (Inl err, d)
         \<and> request e (Some t) op d = (Inl err, d))
   \<and> jwt_verify (Raw s') (JWT_SECRET e) (clock e) = Inl JsonWebTokenError
   \<and> (k \<noteq> JWT_SECRET e \<longrightarrow>
         jwt_verify (Jwt p k) (JWT_SECRET e) (clock e) = Inl JsonWebTokenError)
   \<and> (\<forall>x. jwt_exp p = Some x \<and> x \<le> clock e \<longrightarrow>
         jwt_verify (Jwt p (JWT_SECRET e)) (JWT_SECRET e) (clock e) = Inl TokenExpiredError)"
proof -
  have absent: "getUserFromToken e None d = (Inr None, d)" by simp
  have empty: "getUserFromToken e (Some (Raw [])) d = (Inr None, d)" by simp
  have unknown: "getUserFromToken e (Some t) d = (Inr None, logged (Read ''Users'') d)"
    if h: "jwt_verify t (JWT_SECRET e) (clock e) = Inr payload
         \<and> jwt_id payload = Some s \<and> ObjectId s = Inr i
         \<and> i \<notin> set (map u_id (coll_Users d))" for payload s i
  proof -
    have t: "t \<noteq> Raw []" using h by (auto simp: jwt_verify_def)
    have s: "s \<noteq> []" using h by (auto simp: ObjectId_def)
    have "findOne (\<lambda>u. u_id u = i) (coll_Users d) = None"
      using h by (auto simp: findOne_None)
    then show ?thesis using h t s by simp
  qed
  have thrown: "getUserFromToken e (Some t) d = (Inl err, d)
         \<and> request e (Some t) op d = (Inl err, d)"
    if h: "t \<noteq> Raw [] \<and> jwt_verify t (JWT_SECRET e) (clock e) = Inl err" for err
  proof -
    have "getUserFromToken e (Some t) d = (Inl err, d)" using h by simp
    then show ?thesis by (simp add: request_context_error)
  qed
  have malformed: "jwt_verify (Raw s') (JWT_SECRET e) (clock e) = Inl JsonWebTokenError"
    by (simp add: jwt_verify_def)
  have signature: "k \<noteq> JWT_SECRET e \<longrightarrow>
         jwt_verify (Jwt p k) (JWT_SECRET e) (clock e) = Inl JsonWebTokenError"
    by (simp add: jwt_verify_def)
  have expired: "\<forall>x. jwt_exp p = Some x \<and> x \<le> clock e \<longrightarrow>
         jwt_verify (Jwt p (JWT_SECRET e)) (JWT_SECRET e) (clock e) = Inl TokenExpiredError"
    by (simp add: jwt_verify_def)
  show ?thesis
    using absent empty unknown thrown malformed signature expired
    by (intro conjI allI impI) blast+
qed

text \<open>
  On the small store: no header; the token of carol, whom the store does not have; and
  three requests to delete the groceries list that fail before the resolver, with a string
  that is no token, a token signed with a guessed key, and alice's token thirty days on.
\<close>

theorem identity_resolver_witness:
  "getUserFromToken env1 None small_db = (Inr None, small_db)
   \<and> jwt_verify (getToken env0 carol) (JWT_SECRET env1) (clock env1)
       = Inr \<lparr>jwt_id = Some ''5f00000000000000000000c1'', jwt_iat = 1614592800,
              jwt_exp = Some 1617184800\<rparr>
   \<and> Oid ''5f00000000000000000000c1'' \<notin> set (map u_id (coll_Users small_db))
   \<and> getUserFromToken env1 (Some (getToken env0 carol)) small_db
       = (Inr None, logged (Read ''Users'') small_db)
   \<and> jwt_verify (Raw ''Bearer abc'') (JWT_SECRET env1) (clock env1) = Inl JsonWebTokenError
   \<and> request env1 (Some (Raw ''Bearer abc'')) (M_deleteTaskList ''5f00000000000000000000a1'')
         small_db = (Inl JsonWebTokenError, small_db)
   \<and> jwt_verify (getToken (env0\<lparr>JWT_SECRET := ''guess''\<rparr>) alice) (JWT_SECRET env1) (clock env1)
       = Inl JsonWebTokenError
   \<and> request env1 (Some (getToken (env0\<lparr>JWT_SECRET := ''guess''\<rparr>) alice))
         (M_deleteTaskList ''5f00000000000000000000a1'') small_db
       = (Inl JsonWebTokenError, small_db)
   \<and> jwt_verify (getToken env0 alice) (JWT_SECRET env1) 1617184800 = Inl TokenExpiredError
   \<and> request (env1\<lparr>clock := 1617184800\<rparr>) (Some (getToken env0 alice))
         (M_deleteTaskList ''5f00000000000000000000a1'') small_db
       = (Inl TokenExpiredError, small_db)"
proof -
  let ?del = "M_deleteTaskList ''5f00000000000000000000a1''"
  let ?late = "env1\<lparr>clock := 1617184800\<rparr>"
  let ?forged = "getToken (env0\<lparr>JWT_SECRET := ''guess''\<rparr>) alice"
  have id: "jwt_id \<lparr>jwt_id = Some ''5f00000000000000000000c1'', jwt_iat = 1614592800,
              jwt_exp = Some 1617184800\<rparr> = Some ''5f00000000000000000000c1''"
    by simp
  have unknown: "Oid ''5f00000000000000000000c1'' \<notin> set (map u_id (coll_Users small_db))"
    by (simp add: small_db_def alice_def bob_def alice_id_def bob_id_def)
  have raw: "Raw ''Bearer abc'' \<noteq> Raw []" by simp
  have forged: "?forged \<noteq> Raw []" by (simp add: getToken_def jwt_sign_def)
  have token: "getToken env0 alice \<noteq> Raw []" by (simp add: getToken_def jwt_sign_def)
  have v1: "jwt_verify (Raw ''Bearer abc'') (JWT_SECRET env1) (clock env1) = Inl JsonWebTokenError"
    by (simp add: jwt_verify_def)
  have v2: "jwt_verify ?forged (JWT_SECRET env1) (clock env1) = Inl JsonWebTokenError"
    by (simp add: jwt_verify_def getToken_def jwt_sign_def env0_def env1_def)
  have v3: "jwt_verify (getToken env0 alice) (JWT_SECRET ?late) (clock ?late) = Inl TokenExpiredError"
    by (simp add: jwt_verify_def getToken_def jwt_sign_def thirty_days_def env0_def env1_def)
  have v3': "jwt_verify (getToken env0 alice) (JWT_SECRET env1) 1617184800 = Inl TokenExpiredError"
    using v3 by simp
  note absent = identity_resolver [where e = env1 and d = small_db, THEN conjunct1]
  note stranger = identity_resolver [where e = env1 and d = small_db
      and t = "getToken env0 carol", THEN conjunct2, THEN conjunct2, THEN conjunct1, rule_format,
      OF conjI [OF verify_carol conjI [OF id conjI [OF ObjectId_carol unknown]]]]
  note thrown = identity_resolver [where d = small_db and op = ?del,
      THEN conjunct2, THEN conjunct2, THEN conjunct2, THEN conjunct1, rule_format, THEN conjunct2]
  show ?thesis
    by (intro conjI absent verify_carol unknown stranger v1 v2 v3'
        thrown [OF conjI [OF raw v1]] thrown [OF conjI [OF forged v2]]
        thrown [OF conjI [OF token v3]])
qed

subsection \<open>Deleting a list\<close>

text \<open>
  C8. \<open>deleteTaskList\<close>, called by an authenticated user, leaves the \<open>ToDo\<close> and
  \<open>Users\<close> collections as they were. For an identifier \<open>ObjectId\<close> accepts it returns
  \<open>true\<close> and removes the lists with that identifier, nothing else. A ToDo of the deleted
  list is still stored: a \<open>findOne\<close> by its \<open>_id\<close> returns it (\<open>_id\<close> being a key of
  the collection), and its \<open>taskList\<close> resolver finds nothing.
\<close>

theorem deleteTaskList_leaves_todos:
  "coll_ToDo (snd (deleteTaskList ident d (Some u))) = coll_ToDo d
   \<and> coll_Users (snd (deleteTaskList ident d (Some u))) = coll_Users d
   \<and> (\<forall>i. ObjectId ident = Inr i \<longrightarrow>
         fst (deleteTaskList ident d (Some u)) = Inr True
         \<and> coll_TaskList (snd (deleteTaskList ident d (Some u)))
             = filter (\<lambda>t. tl_id t \<noteq> i) (coll_TaskList d)
         \<and> (\<forall>todo \<in> set (coll_ToDo d). td_taskListId todo = i \<longrightarrow>
               fst (ToDo_taskList todo (snd (deleteTaskList ident d (Some u)))) = None
               \<and> (distinct (map td_id (coll_ToDo d)) \<longrightarrow>
                    findOne (\<lambda>x. td_id x = td_id todo)
                      (coll_ToDo (snd (deleteTaskList ident d (Some u)))) = Some todo)))"
proof -
  have todos: "coll_ToDo (snd (deleteTaskList ident d (Some u))) = coll_ToDo d"
    by (simp add: deleteTaskList_def logged_def split: sum.splits)
  have users: "coll_Users (snd (deleteTaskList ident d (Some u))) = coll_Users d"
    by (simp add: deleteTaskList_def logged_def split: sum.splits)
  have deleted: "fst (deleteTaskList ident d (Some u)) = Inr True
         \<and> coll_TaskList (snd (deleteTaskList ident d (Some u)))
             = filter (\<lambda>t. tl_id t \<noteq> i) (coll_TaskList d)
         \<and> (\<forall>todo \<in> set (coll_ToDo d). td_taskListId todo = i \<longrightarrow>
               fst (ToDo_taskList todo (snd (deleteTaskList ident d (Some u)))) = None
               \<and> (distinct (map td_id (coll_ToDo d)) \<longrightarrow>
                    findOne (\<lambda>x. td_id x = td_id todo)
                      (coll_ToDo (snd (deleteTaskList ident d (Some u)))) = Some todo))"
    if h: "ObjectId ident = Inr i" for i
  proof -
    have lists: "coll_TaskList (snd (deleteTaskList ident d (Some u)))
        = remove (\<lambda>t. tl_id t = i) (coll_TaskList d)"
      using h by (simp add: deleteTaskList_def logged_def)
    have gone: "fst (ToDo_taskList todo (snd (deleteTaskList ident d (Some u)))) = None"
      if "td_taskListId todo = i" for todo
      using that by (simp add: ToDo_taskList_def lists findOne_remove)
    have kept: "findOne (\<lambda>x. td_id x = td_id todo)
        (coll_ToDo (snd (deleteTaskList ident d (Some u)))) = Some todo"
      if "todo \<in> set (coll_ToDo d)" "distinct (map td_id (coll_ToDo d))" for todo
      using that by (simp add: todos findOne_key)
    have "fst (deleteTaskList ident d (Some u)) = Inr True"
      using h by (simp add: deleteTaskList_def)
    then show ?thesis using lists gone kept by (simp add: remove_def)
  qed
  show ?thesis using todos users deleted by blast
qed

text \<open>Bob deletes the groceries list of the small store; the eggs remain, orphaned.\<close>

theorem deleteTaskList_leaves_todos_witness:
  "ObjectId ''5f00000000000000000000a1'' = Inr groceries_id
   \<and> fst (deleteTaskList ''5f00000000000000000000a1'' small_db (Some bob)) = Inr True
   \<and> coll_ToDo (snd (deleteTaskList ''5f00000000000000000000a1'' small_db (Some bob)))
       = coll_ToDo small_db
   \<and> item CHR ''2'' ''eggs'' False \<in> set (coll_ToDo small_db)
   \<and> td_taskListId (item CHR ''2'' ''eggs'' False) = groceries_id
   \<and> fst (ToDo_taskList (item CHR ''2'' ''eggs'' False)
            (snd (deleteTaskList ''5f00000000000000000000a1'' small_db (Some bob)))) = None
   \<and> distinct (map td_id (coll_ToDo small_db))
   \<and> findOne (\<lambda>x. td_id x = td_id (item CHR ''2'' ''eggs'' False))
        (coll_ToDo (snd (deleteTaskList ''5f00000000000000000000a1'' small_db (Some bob))))
       = Some (item CHR ''2'' ''eggs'' False)"
proof -
  note eggs = eggs_in_small_db [THEN conjunct1]
  note owner = eggs_in_small_db [THEN conjunct2, THEN conjunct1]
  note dist = eggs_in_small_db [THEN conjunct2, THEN conjunct2]
  note frame = deleteTaskList_leaves_todos [of "''5f00000000000000000000a1''" small_db bob,
      THEN conjunct1]
  note deleted = deleteTaskList_leaves_todos [of "''5f00000000000000000000a1''" small_db bob,
      THEN conjunct2, THEN conjunct2, rule_format, OF ObjectId_lower24]
  note orphan = deleted [THEN conjunct2, THEN conjunct2, rule_format, OF eggs owner]
  show ?thesis
    by (intro conjI ObjectId_lower24 deleted [THEN conjunct1] frame eggs owner dist
        orphan [THEN conjunct1] orphan [THEN conjunct2, rule_format, OF dist])
qed

subsection \<open>Members of a list\<close>

text \<open>
  C9. In every state of the store the server can reach, every TaskList has at least one
  member. The property is kept by every request from any store that has it;
  \<open>createTaskList\<close> stores and returns a list whose only member is the caller; and from
  a reachable store no request takes a member away: a list that is still stored has its
  former members, in order, before any new ones.
\<close>

theorem members_never_empty:
  "(reachable d \<longrightarrow> (\<forall>t \<in> set (coll_TaskList d). tl_userIds t \<noteq> []))
   \<and> (members_nonempty d \<longrightarrow> members_nonempty (snd (request e authorization op d)))
   \<and> (\<forall>r. fst (createTaskList e title d (Some u)) = Inr r \<longrightarrow>
         tl_userIds r = [u_id u]
         \<and> coll_TaskList (snd (createTaskList e title d (Some u))) = coll_TaskList d @ [r])
   \<and> (reachable d \<longrightarrow> members_kept d (snd (request e authorization op d)))"
proof (intro conjI impI allI)
  assume "reachable d"
  then show "\<forall>t \<in> set (coll_TaskList d). tl_userIds t \<noteq> []"
    using members_reachable [of d] by (simp add: members_nonempty_def list_all_iff)
next
  assume "members_nonempty d"
  then show "members_nonempty (snd (request e authorization op d))" by (rule members_request)
next
  fix r assume "fst (createTaskList e title d (Some u)) = Inr r"
  then show "tl_userIds r = [u_id u]"
    by (auto simp: createTaskList_def Let_def split: sum.splits)
next
  fix r assume "fst (createTaskList e title d (Some u)) = Inr r"
  then show "coll_TaskList (snd (createTaskList e title d (Some u))) = coll_TaskList d @ [r]"
    by (auto simp: createTaskList_def Let_def insertOne_def logged_def split: sum.splits if_splits)
next
  assume "reachable d"
  then have "distinct (map tl_id (coll_TaskList d))"
    using unique_reachable [of d] by (simp add: unique_ids_def)
  then show "members_kept d (snd (request e authorization op d))" by (rule members_kept_request)
qed

text \<open>The store after carol's sign-up and her \<open>createTaskList\<close>.\<close>

theorem members_never_empty_witness:
  "reachable after_createTaskList
   \<and> chores \<in> set (coll_TaskList after_createTaskList)
   \<and> tl_userIds chores \<noteq> []
   \<and> members_nonempty after_createTaskList
   \<and> members_nonempty (snd (request env1 (Some (getToken env0 carol))
         (M_addUserToTaskList ''5f00000000000000000000a2'' ''5f0000000000000000000001'')
         after_createTaskList))
   \<and> fst (createTaskList env1 ''Chores'' (logged (Read ''Users'') after_signUp) (Some carol))
       = Inr chores
   \<and> tl_userIds chores = [u_id carol]
   \<and> members_kept after_createTaskList
        (snd (request env1 (Some (getToken env0 carol))
           (M_addUserToTaskList ''5f00000000000000000000a2'' ''5f0000000000000000000001'')
           after_createTaskList))"
proof -
  have m: "chores \<in> set (coll_TaskList after_createTaskList)"
    by (simp add: after_createTaskList_value)
  have n: "members_nonempty after_createTaskList"
    by (simp add: after_createTaskList_value members_nonempty_def chores_def)
  have c: "fst (createTaskList env1 ''Chores'' (logged (Read ''Users'') after_signUp) (Some carol))
       = Inr chores"
    by (simp add: create_chores)
  note inv = members_never_empty [THEN conjunct1, rule_format]
  note step = members_never_empty [THEN conjunct2, THEN conjunct1, rule_format]
  note sole = members_never_empty [THEN conjunct2, THEN conjunct2, THEN conjunct1, rule_format]
  note kept = members_never_empty [THEN conjunct2, THEN conjunct2, THEN conjunct2, rule_format]
  show ?thesis
    by (intro conjI reachable_after_createTaskList m inv [OF reachable_after_createTaskList m]
        n step [OF n] c conjunct1 [OF sole [OF c]] kept [OF reachable_after_createTaskList])
qed

subsection \<open>Updating a to-do\<close>

text \<open>
  C10. When \<open>updateToDo\<close> is called by an authenticated user with the identifier of a
  stored ToDo, the stored record becomes the old one with every field of the argument
  object set: \<open>isCompleted\<close>, \<open>content\<close> when the arguments have it, and a field \<open>id\<close>
  equal to the identifier argument. \<open>taskListId\<close> and \<open>_id\<close> keep their values. The
  resolver returns the record as stored.
\<close>

theorem updateToDo_sets_whole_argument:
  assumes "ObjectId (data_id data) = Inr i"
    and "findOne (\<lambda>t. td_id t = i) (coll_ToDo d) = Some doc"
  shows "fst (updateToDo data d (Some u)) = Inr (Some (set_data data doc))
    \<and> set_data data doc \<in> set (coll_ToDo (snd (updateToDo data d (Some u))))
    \<and> td_idField (set_data data doc) = Some (data_id data)
    \<and> td_isCompleted (set_data data doc) = data_isCompleted data
    \<and> td_content (set_data data doc) =
        (case data_content data of None \<Rightarrow> td_content doc | Some c \<Rightarrow> c)
    \<and> td_taskListId (set_data data doc) = td_taskListId doc
    \<and> td_id (set_data data doc) = td_id doc"
proof -
  have key: "td_id doc = i" using assms(2) by (auto dest: findOne_Some_set)
  have "td_id (set_data data doc) = i" by (simp add: set_data_def key)
  then have "findOne (\<lambda>t. td_id t = i) (updateOne (\<lambda>t. td_id t = i) (set_data data) (coll_ToDo d))
      = Some (set_data data doc)"
    using assms(2) by (simp add: findOne_updateOne)
  moreover have "set_data data doc \<in> set (updateOne (\<lambda>t. td_id t = i) (set_data data) (coll_ToDo d))"
    using assms(2) by (rule set_updateOne)
  ultimately show ?thesis
    using assms(1) by (simp add: updateToDo_def Let_def logged_def set_data_def)
qed

text \<open>Bob completes the eggs of the small store.\<close>

theorem updateToDo_sets_whole_argument_witness:
  "findOne (\<lambda>t. td_id t = Oid ''5f00000000000000000000b2'') (coll_ToDo small_db)
      = Some (item CHR ''2'' ''eggs'' False)
   \<and> fst (updateToDo \<lparr>data_id = ''5f00000000000000000000b2'', data_content = None,
                      data_isCompleted = True\<rparr> small_db (Some bob))
       = Inr (Some \<lparr>td_id = Oid ''5f00000000000000000000b2'', td_content = Some ''eggs'',
                    td_taskListId = groceries_id, td_isCompleted = True,
                    td_idField = Some ''5f00000000000000000000b2''\<rparr>)"
proof -
  let ?data = "\<lparr>data_id = ''5f00000000000000000000b2'', data_content = None,
                      data_isCompleted = True\<rparr>"
  have a: "ObjectId (data_id ?data) = Inr (Oid ''5f00000000000000000000b2'')"
    by (simp add: ObjectId_eggs)
  have b: "findOne (\<lambda>t. td_id t = Oid ''5f00000000000000000000b2'') (coll_ToDo small_db)
      = Some (item CHR ''2'' ''eggs'' False)"
    by (simp add: findOne_def small_db_def item_def)
  have c: "set_data ?data (item CHR ''2'' ''eggs'' False)
      = \<lparr>td_id = Oid ''5f00000000000000000000b2'', td_content = Some ''eggs'',
                    td_taskListId = groceries_id, td_isCompleted = True,
                    td_idField = Some ''5f00000000000000000000b2''\<rparr>"
    by (simp add: set_data_def item_def)
  have "fst (updateToDo ?data small_db (Some bob)) = Inr (Some (set_data ?data (item CHR ''2'' ''eggs'' False)))"
    using updateToDo_sets_whole_argument [OF a b, of bob] by (elim conjE)
  then show ?thesis using b by (simp only: c simp_thms)
qed

end
